theory Spec2Isabelle
  imports Main
begin

chapter \<open>The model\<close>

section \<open>JavaScript strings\<close>

text \<open>
  A JavaScript string is modelled as a \<open>string\<close>: a list of characters, one per UTF-16
  code unit, restricted to the code units below 256. The regular expressions of
  \<open>utils.ts\<close> only distinguish the ASCII letters, the digits and the underscore from
  everything else, so a code unit above 255 behaves there like any other character
  outside \<open>[a-zA-Z0-9_]\<close>.
\<close>

definition lowers :: string where
  "lowers = ''abcdefghijklmnopqrstuvwxyz''"

definition uppers :: string where
  "uppers = ''ABCDEFGHIJKLMNOPQRSTUVWXYZ''"

definition digits :: string where
  "digits = ''0123456789''"

text \<open>The character class \<open>[a-zA-Z0-9]\<close>.\<close>

definition is_alnum :: "char \<Rightarrow> bool" where
  "is_alnum c = (c \<in> set lowers \<or> c \<in> set uppers \<or> c \<in> set digits)"

definition is_underscore :: "char \<Rightarrow> bool" where
  "is_underscore c = (c = CHR ''_'')"

text \<open>
  \<open>String.prototype.toLowerCase\<close> and \<open>toUpperCase\<close> on one code unit. Only the ASCII
  letters are mapped; every other character is left as it is. This is exact on ASCII
  strings: \<open>sanitize\<close> lowercases a string of ASCII letters, digits and underscores, and
  an HTTP method is an ASCII token.
\<close>

definition lower_char :: "char \<Rightarrow> char" where
  "lower_char c = (case map_of (zip uppers lowers) c of None \<Rightarrow> c | Some d \<Rightarrow> d)"

definition upper_char :: "char \<Rightarrow> char" where
  "upper_char c = (case map_of (zip lowers uppers) c of None \<Rightarrow> c | Some d \<Rightarrow> d)"

definition toLowerCase :: "string \<Rightarrow> string" where
  "toLowerCase s = map lower_char s"

definition toUpperCase :: "string \<Rightarrow> string" where
  "toUpperCase s = map upper_char s"

text \<open>\<open>s.startsWith(p)\<close>, \<open>s.endsWith(p)\<close> and \<open>s.includes(p)\<close>.\<close>

definition startsWith :: "string \<Rightarrow> string \<Rightarrow> bool" where
  "startsWith s p = (take (length p) s = p)"

definition endsWith :: "string \<Rightarrow> string \<Rightarrow> bool" where
  "endsWith s p = (length p \<le> length s \<and> drop (length s - length p) s = p)"

fun includes_str :: "string \<Rightarrow> string \<Rightarrow> bool" where
  "includes_str [] p = (p = [])"
| "includes_str (c # cs) p = (startsWith (c # cs) p \<or> includes_str cs p)"

text \<open>
  \<open>s.replace(/[C]+/g, r)\<close> for a character class \<open>C\<close>: scanning from the left, every
  maximal run of characters of the class is replaced by \<open>r\<close>.
\<close>

function replace_runs :: "(char \<Rightarrow> bool) \<Rightarrow> string \<Rightarrow> string \<Rightarrow> string" where
  "replace_runs P r [] = []"
| "replace_runs P r (c # cs) =
     (if P c then r @ replace_runs P r (dropWhile P cs) else c # replace_runs P r cs)"
  by pat_completeness auto
termination
  by (relation "measure (\<lambda>(P, r, s). length s)")
     (auto simp: length_dropWhile_le less_Suc_eq_le)

text \<open>
  \<open>String.prototype.trim\<close>: white space and line terminators are removed at both ends.
  Below 256 these are tab, line feed, vertical tab, form feed, carriage return, space
  and the no-break space.
\<close>

definition js_whitespace :: "char list" where
  "js_whitespace = [CHR 0x09, CHR 0x0A, CHR 0x0B, CHR 0x0C, CHR 0x0D, CHR 0x20, CHR 0xA0]"

definition is_js_space :: "char \<Rightarrow> bool" where
  "is_js_space c = (c \<in> set js_whitespace)"

definition trim :: "string \<Rightarrow> string" where
  "trim s = rev (dropWhile is_js_space (rev (dropWhile is_js_space s)))"

section \<open>utils.ts: sanitize\<close>

text \<open>\<open>.replace(/^https?:\/\//, '')\<close>: a leading \<open>http://\<close> or \<open>https://\<close> is removed.\<close>

definition strip_scheme :: "string \<Rightarrow> string" where
  "strip_scheme s =
     (if startsWith s ''http://'' then drop 7 s
      else if startsWith s ''https://'' then drop 8 s
      else s)"

text \<open>
  \<open>.replace(/^_+|_+$/g, '')\<close>: the run of underscores at the start and the run of
  underscores that reaches the end are removed.
\<close>

definition trim_underscores :: "string \<Rightarrow> string" where
  "trim_underscores s = rev (dropWhile is_underscore (rev (dropWhile is_underscore s)))"

text \<open>
  \<^verbatim>\<open>
  export function sanitize(str: string): string {
    return str
      .replace(/^https?:\/\//, '')
      .replace(/[^a-zA-Z0-9]+/g, '_')
      .replace(/^_+|_+$/g, '')
      .replace(/_+/g, '_')
      .toLowerCase();
  }
  \<close>
\<close>

definition sanitize :: "string \<Rightarrow> string" where
  "sanitize str =
     toLowerCase
       (replace_runs is_underscore ''_''
         (trim_underscores
           (replace_runs (\<lambda>c. \<not> is_alnum c) ''_''
             (strip_scheme str))))"

text \<open>
  The output language that the spec gives for \<open>sanitize\<close>: the character class
  \<open>[a-z0-9_]\<close>, and strings without two adjacent underscores.
\<close>

definition is_out_char :: "char \<Rightarrow> bool" where
  "is_out_char c = (c \<in> set lowers \<or> c \<in> set digits \<or> c = CHR ''_'')"

fun no_double_us :: "string \<Rightarrow> bool" where
  "no_double_us (c # d # cs) = (\<not> (c = CHR ''_'' \<and> d = CHR ''_'') \<and> no_double_us (d # cs))"
| "no_double_us [c] = True"
| "no_double_us [] = True"

section \<open>JavaScript values\<close>

text \<open>
  The values a request or response body can hold (\<open>unknown\<close> in the source). Numbers are
  the integers; an object is the list of its own enumerable properties in order.
  \<open>JFunction\<close> is a function value. \<open>JCircular\<close> is a reference to an object that is
  being visited already: the property that closes a cycle, as \<open>obj.self = obj\<close> does in
  the repository's test of \<open>getDataSize\<close>.
\<close>

datatype jsval =
    JUndefined
  | JNull
  | JBool bool
  | JNum int
  | JStr string
  | JArr "jsval list"
  | JObj "(string \<times> jsval) list"
  | JFunction
  | JCircular

fun typeof :: "jsval \<Rightarrow> string" where
  "typeof JUndefined = ''undefined''"
| "typeof JNull = ''object''"
| "typeof (JBool b) = ''boolean''"
| "typeof (JNum n) = ''number''"
| "typeof (JStr s) = ''string''"
| "typeof (JArr xs) = ''object''"
| "typeof (JObj ps) = ''object''"
| "typeof JFunction = ''function''"
| "typeof JCircular = ''object''"

text \<open>JavaScript truthiness: what \<open>!data\<close>, \<open>a || b\<close> and \<open>if (x)\<close> test.\<close>

fun truthy :: "jsval \<Rightarrow> bool" where
  "truthy JUndefined = False"
| "truthy JNull = False"
| "truthy (JBool b) = b"
| "truthy (JNum n) = (n \<noteq> 0)"
| "truthy (JStr s) = (s \<noteq> [])"
| "truthy (JArr xs) = True"
| "truthy (JObj ps) = True"
| "truthy JFunction = True"
| "truthy JCircular = True"


text \<open>
  Truthiness of the optional fields. \<open>truthy_str a\<close> is the string \<open>a\<close> when it is truthy
  (present and not empty); \<open>or_str a b\<close> is \<open>a || b\<close>; \<open>is_set flag\<close> is \<open>if (flag)\<close>.
\<close>

definition truthy_str :: "string option \<Rightarrow> string option" where
  "truthy_str a = (case a of None \<Rightarrow> None | Some s \<Rightarrow> if s \<noteq> [] then Some s else None)"

definition or_str :: "string option \<Rightarrow> string \<Rightarrow> string" where
  "or_str a b = (case truthy_str a of None \<Rightarrow> b | Some s \<Rightarrow> s)"

definition is_set :: "bool option \<Rightarrow> bool" where
  "is_set flag = (flag = Some True)"

section \<open>The axios types the hooks read\<close>

text \<open>
  Headers are a record from header names to strings, as the source's cast
  \<open>headers?.['content-type'] as string | undefined\<close> has it.
\<close>

type_synonym headers = "(string \<times> string) list"

text \<open>
  \<open>InternalAxiosRequestConfig\<close> with the fields the source adds to it:
  \<^verbatim>\<open>
  interface InternalAxiosRequestConfig {
    logAs?: string;
    skipLog?: boolean;
    _logPath?: string;
    _logStartTime?: number;
  }
  \<close>
  An optional field is an \<open>option\<close>; \<open>None\<close> is \<open>undefined\<close>. The fields of every record
  carry a prefix (\<open>cfg_\<close> here), since the source uses the bare names for its variables
  too; \<open>cfg_logPath\<close> and \<open>cfg_logStartTime\<close> are \<open>_logPath\<close> and \<open>_logStartTime\<close>.
\<close>

record RequestConfig =
  cfg_url :: "string option"
  cfg_method :: "string option"
  cfg_headers :: headers
  cfg_data :: jsval
  cfg_logAs :: "string option"
  cfg_skipLog :: "bool option"
  cfg_logPath :: "string option"
  cfg_logStartTime :: "int option"

text \<open>\<open>AxiosResponse\<close>: status, status text, headers, body and the request's configuration.\<close>

record Response =
  res_status :: int
  res_statusText :: string
  res_headers :: headers
  res_data :: jsval
  res_config :: RequestConfig

text \<open>\<open>AxiosError\<close>: a message, and optionally a code, the configuration and a response.\<close>

record AxiosError =
  err_message :: string
  err_code :: "string option"
  err_config :: "RequestConfig option"
  err_response :: "Response option"

text \<open>
  What a JavaScript function can throw and a promise can be rejected with: a
  \<open>TypeError\<close> (an invalid URL, a circular structure given to \<open>JSON.stringify\<close>, a
  property read on \<open>undefined\<close>, an argument of the wrong type), a system error of the
  file system or of \<open>os.hostname\<close>, each with its message, and the \<open>AxiosError\<close> of a
  failed exchange.
\<close>

datatype js_error = TypeError string | SystemError string | Failure AxiosError

text \<open>
  \<open>try { body } catch { handler }\<close> for a body and a handler that are already evaluated
  to a value or an exception: the handler's outcome replaces an exception of the body.
\<close>

definition try_catch :: "('e + 'a) \<Rightarrow> ('e + 'a) \<Rightarrow> 'e + 'a" where
  "try_catch body handler = (case body of Inl _ \<Rightarrow> handler | Inr v \<Rightarrow> Inr v)"

section \<open>utils.ts: getPathFromUrl and getHostname\<close>

text \<open>
  The result of \<open>new URL(url)\<close>. The WHATWG URL parser belongs to the platform, not to the
  repository: it is a parameter of the model (\<open>parse\<close> below), which returns the parsed URL or
  the exception that the constructor throws.
\<close>

record URL =
  url_protocol :: string
  url_host :: string
  url_pathname :: string
  url_search :: string

text \<open>\<open>url.split('?')[0]\<close>: the part of the string before the first question mark.\<close>

definition split_first :: "string \<Rightarrow> char \<Rightarrow> string" where
  "split_first s sep = takeWhile (\<lambda>c. c \<noteq> sep) s"

text \<open>
  \<^verbatim>\<open>
  export function getPathFromUrl(url: string): string {
    try {
      const urlObj = new URL(url);
      return sanitize(urlObj.pathname);
    } catch {
      // Relative URL
      const path = url.split('?')[0];
      return sanitize(path);
    }
  }
  \<close>
\<close>

definition getPathFromUrl :: "(string \<Rightarrow> js_error + URL) \<Rightarrow> string \<Rightarrow> js_error + string" where
  "getPathFromUrl parse url =
     try_catch
       (case parse url of
          Inl e \<Rightarrow> Inl e
        | Inr urlObj \<Rightarrow> Inr (sanitize (url_pathname urlObj)))
       (let path = split_first url CHR ''?'' in Inr (sanitize path))"

text \<open>
  A reference parser for the concrete examples: it accepts \<open>http://host/path?query\<close> and
  \<open>https://host/path?query\<close> with a host that is not empty, and throws on everything
  else, as the platform's parser does on a string without a scheme. It neither removes a
  fragment nor resolves dot segments, and the examples have none. The theorems below
  hold for every parser.
\<close>

definition simple_URL :: "string \<Rightarrow> js_error + URL" where
  "simple_URL s =
     (let scheme = (if startsWith s ''http://'' then ''http:''
                    else if startsWith s ''https://'' then ''https:'' else '''');
          rest = drop (length scheme + 2) s;
          h = takeWhile (\<lambda>c. c \<noteq> CHR ''/'' \<and> c \<noteq> CHR ''?'') rest;
          after = dropWhile (\<lambda>c. c \<noteq> CHR ''/'' \<and> c \<noteq> CHR ''?'') rest;
          p = takeWhile (\<lambda>c. c \<noteq> CHR ''?'') after
      in if scheme = [] \<or> h = [] then Inl (TypeError ''Invalid URL'')
         else Inr \<lparr>url_protocol = scheme, url_host = h,
                   url_pathname = (if p = [] then ''/'' else p),
                   url_search = dropWhile (\<lambda>c. c \<noteq> CHR ''?'') after\<rparr>)"

text \<open>
  \<^verbatim>\<open>
  export function getHostname(): string {
    try {
      return sanitize(osHostname());
    } catch {
      return 'unknown';
    }
  }
  \<close>
  \<open>osHostname\<close> is the outcome of \<open>os.hostname()\<close>.
\<close>

definition getHostname :: "(js_error + string) \<Rightarrow> js_error + string" where
  "getHostname osHostname =
     try_catch
       (case osHostname of Inl e \<Rightarrow> Inl e | Inr h \<Rightarrow> Inr (sanitize h))
       (Inr ''unknown'')"

section \<open>utils.ts: detectExt\<close>

text \<open>
  \<^verbatim>\<open>
  export type LogKind = 'req' | 'res' | 'err';
  export type LogExt = 'json' | 'html' | 'txt';
  \<close>
  \<open>kind_str\<close> and \<open>ext_str\<close> give the strings.
\<close>

datatype LogKind = Req | Res | Err

datatype LogExt = Json | Html | Txt

fun kind_str :: "LogKind \<Rightarrow> string" where
  "kind_str Req = ''req''"
| "kind_str Res = ''res''"
| "kind_str Err = ''err''"

fun ext_str :: "LogExt \<Rightarrow> string" where
  "ext_str Json = ''json''"
| "ext_str Html = ''html''"
| "ext_str Txt = ''txt''"

text \<open>
  The optional argument \<open>headers\<close> is \<open>None\<close> when it is absent. \<open>content_type\<close> is the
  lookup \<open>headers?.['content-type']\<close>, and \<open>ct_includes\<close> is
  \<open>contentType?.includes(p)\<close>, which is falsy when there is no content type.
\<close>

definition content_type :: "headers option \<Rightarrow> string option" where
  "content_type hs = (case hs of None \<Rightarrow> None | Some h \<Rightarrow> map_of h ''content-type'')"

definition ct_includes :: "string option \<Rightarrow> string \<Rightarrow> bool" where
  "ct_includes contentType p = (case contentType of None \<Rightarrow> False | Some ct \<Rightarrow> includes_str ct p)"

text \<open>
  \<^verbatim>\<open>
  export function detectExt(data: unknown, headers?: Record<string, unknown>): LogExt {
    const contentType = headers?.['content-type'] as string | undefined;
    if (contentType?.includes('html')) return 'html';
    if (contentType?.includes('json')) return 'json';

    if (typeof data === 'string') {
      const trimmed = data.trim();
      if (trimmed.startsWith('<!') || trimmed.startsWith('<html')) return 'html';
      if (trimmed.startsWith('{') || trimmed.startsWith('[')) return 'json';
    }
    if (typeof data === 'object' && data !== null) return 'json';
    return 'txt';
  }
  \<close>
  \<open>sniff\<close> is the block guarded by \<open>typeof data === 'string'\<close>: it returns an extension
  or falls through (\<open>None\<close>).
\<close>

definition sniff :: "jsval \<Rightarrow> LogExt option" where
  "sniff data =
     (case data of
        JStr s \<Rightarrow>
          (let trimmed = trim s in
           if startsWith trimmed ''<!'' \<or> startsWith trimmed ''<html'' then Some Html
           else if startsWith trimmed ''{'' \<or> startsWith trimmed ''['' then Some Json
           else None)
      | _ \<Rightarrow> None)"

definition detectExt :: "jsval \<Rightarrow> headers option \<Rightarrow> LogExt" where
  "detectExt data hs =
     (let contentType = content_type hs in
      if ct_includes contentType ''html'' then Html
      else if ct_includes contentType ''json'' then Json
      else case sniff data of
             Some e \<Rightarrow> e
           | None \<Rightarrow> if typeof data = ''object'' \<and> data \<noteq> JNull then Json else Txt)"

section \<open>JSON.stringify\<close>

text \<open>
  The decimal digits of a natural number, and \<open>String(i)\<close> for an integer \<open>i\<close> (of a
  magnitude below \<open>10^21\<close>, which JavaScript writes in plain decimal).
\<close>

definition digit_char :: "nat \<Rightarrow> char" where
  "digit_char d = ''0123456789abcdef'' ! d"

fun decimal :: "nat \<Rightarrow> string" where
  "decimal n = (if 10 \<le> n then decimal (n div 10) else []) @ [digit_char (n mod 10)]"

declare decimal.simps [simp del]

definition number_string :: "int \<Rightarrow> string" where
  "number_string i = (if 0 \<le> i then decimal (nat i) else CHR ''-'' # decimal (nat (- i)))"

text \<open>
  \<open>QuoteJSONString\<close>: the string in double quotes, with the quote, the backslash and the
  control characters escaped.
\<close>

definition quote_char :: "char \<Rightarrow> string" where
  "quote_char c =
     (if c = CHR 0x22 then [CHR 0x5C, CHR 0x22]
      else if c = CHR 0x5C then [CHR 0x5C, CHR 0x5C]
      else if c = CHR 0x08 then [CHR 0x5C, CHR ''b'']
      else if c = CHR 0x0C then [CHR 0x5C, CHR ''f'']
      else if c = CHR 0x0A then [CHR 0x5C, CHR ''n'']
      else if c = CHR 0x0D then [CHR 0x5C, CHR ''r'']
      else if c = CHR 0x09 then [CHR 0x5C, CHR ''t'']
      else if (of_char c :: nat) < 32
        then [CHR 0x5C, CHR ''u'', CHR ''0'', CHR ''0'',
              digit_char (of_char c div 16), digit_char (of_char c mod 16)]
      else [c])"

definition quote_json :: "string \<Rightarrow> string" where
  "quote_json s = [CHR 0x22] @ concat (map quote_char s) @ [CHR 0x22]"

fun join :: "string \<Rightarrow> string list \<Rightarrow> string" where
  "join sep [] = []"
| "join sep [x] = x"
| "join sep (x # y # ys) = x @ sep @ join sep (y # ys)"

text \<open>
  The text of an array or an object from the texts of its parts: \<open>gap\<close> is the
  indentation unit (empty for the compact form) and \<open>ind\<close> the indentation of the
  enclosing level.
\<close>

definition wrap :: "string \<Rightarrow> string \<Rightarrow> string \<Rightarrow> string \<Rightarrow> string list \<Rightarrow> string" where
  "wrap opening closing gap ind parts =
     (if parts = [] then opening @ closing
      else if gap = [] then opening @ join '','' parts @ closing
      else opening @ [CHR 0x0A] @ ind @ gap
           @ join ('','' @ [CHR 0x0A] @ ind @ gap) parts
           @ [CHR 0x0A] @ ind @ closing)"

text \<open>
  \<open>SerializeJSONProperty\<close>: \<open>Inr None\<close> is the result \<open>undefined\<close> (for \<open>undefined\<close> and
  for a function), \<open>Inl\<close> the \<open>TypeError\<close> thrown on a circular structure. An element of
  an array that serializes to \<open>undefined\<close> is written \<open>null\<close>; a property of an object
  that does is left out.
\<close>

fun ser :: "string \<Rightarrow> string \<Rightarrow> jsval \<Rightarrow> js_error + string option"
and ser_elems :: "string \<Rightarrow> string \<Rightarrow> jsval list \<Rightarrow> js_error + string list"
and ser_props :: "string \<Rightarrow> string \<Rightarrow> (string \<times> jsval) list \<Rightarrow> js_error + string list"
where
  "ser gap ind JUndefined = Inr None"
| "ser gap ind JFunction = Inr None"
| "ser gap ind JNull = Inr (Some ''null'')"
| "ser gap ind (JBool b) = Inr (Some (if b then ''true'' else ''false''))"
| "ser gap ind (JNum n) = Inr (Some (number_string n))"
| "ser gap ind (JStr s) = Inr (Some (quote_json s))"
| "ser gap ind JCircular = Inl (TypeError ''Converting circular structure to JSON'')"
| "ser gap ind (JArr xs) =
     (case ser_elems gap (ind @ gap) xs of
        Inl e \<Rightarrow> Inl e
      | Inr parts \<Rightarrow> Inr (Some (wrap ''['' '']'' gap ind parts)))"
| "ser gap ind (JObj ps) =
     (case ser_props gap (ind @ gap) ps of
        Inl e \<Rightarrow> Inl e
      | Inr parts \<Rightarrow> Inr (Some (wrap ''{'' ''}'' gap ind parts)))"
| "ser_elems gap ind [] = Inr []"
| "ser_elems gap ind (x # xs) =
     (case ser gap ind x of
        Inl e \<Rightarrow> Inl e
      | Inr r \<Rightarrow>
          (case ser_elems gap ind xs of
             Inl e \<Rightarrow> Inl e
           | Inr rs \<Rightarrow> Inr ((case r of None \<Rightarrow> ''null'' | Some s \<Rightarrow> s) # rs)))"
| "ser_props gap ind [] = Inr []"
| "ser_props gap ind (kv # ps) =
     (case ser gap ind (snd kv) of
        Inl e \<Rightarrow> Inl e
      | Inr r \<Rightarrow>
          (case ser_props gap ind ps of
             Inl e \<Rightarrow> Inl e
           | Inr rs \<Rightarrow>
               Inr ((case r of
                       None \<Rightarrow> []
                     | Some s \<Rightarrow>
                         [quote_json (fst kv) @ '':'' @ (if gap = [] then [] else '' '') @ s])
                    @ rs)))"

text \<open>
  \<open>JSON_stringify v n\<close> is \<open>JSON.stringify(v, null, n)\<close>; \<open>JSON_stringify v 0\<close> is
  \<open>JSON.stringify(v)\<close>. The indentation unit is at most ten spaces.
\<close>

definition JSON_stringify :: "jsval \<Rightarrow> nat \<Rightarrow> js_error + string option" where
  "JSON_stringify v n = ser (replicate (min n 10) CHR '' '') [] v"

section \<open>utils.ts: formatSize and getDataSize\<close>

text \<open>
  \<open>(a / b).toFixed(f)\<close> for natural numbers \<open>a\<close> and \<open>b\<close> whose quotient is computed
  exactly: the integer nearest to \<open>a / b * 10^f\<close>, the larger one of two that are equally
  near, written with \<open>f\<close> digits after the point. The source divides a byte count by
  1024 and by 1024 * 1024, powers of two, so the floating-point quotient is exact for
  every integer that a JavaScript number holds exactly. (From \<open>10^21\<close> on \<open>toFixed\<close>
  writes a number in exponent notation; the quotients of such integers are far below.)
\<close>

definition MAX_SAFE_INTEGER :: nat where
  "MAX_SAFE_INTEGER = 2 ^ 53 - 1"

definition nearest :: "nat \<Rightarrow> nat \<Rightarrow> nat" where
  "nearest a b = (2 * a + b) div (2 * b)"

definition toFixed :: "nat \<Rightarrow> nat \<Rightarrow> nat \<Rightarrow> string" where
  "toFixed a b f =
     (let m = decimal (nearest (a * 10 ^ f) b);
          m' = replicate (f + 1 - length m) CHR ''0'' @ m;
          k = length m'
      in if f = 0 then m' else take (k - f) m' @ ''.'' @ drop (k - f) m')"

text \<open>
  \<^verbatim>\<open>
  export function formatSize(bytes: number): string {
    if (bytes < 1024) return `${bytes}B`;
    if (bytes < 1024 * 1024) return `${(bytes / 1024).toFixed(1)}KB`;
    return `${(bytes / (1024 * 1024)).toFixed(2)}MB`;
  }
  \<close>
\<close>

definition formatSize :: "nat \<Rightarrow> string" where
  "formatSize bytes =
     (if bytes < 1024 then decimal bytes @ ''B''
      else if bytes < 1024 * 1024 then toFixed bytes 1024 1 @ ''KB''
      else toFixed bytes (1024 * 1024) 2 @ ''MB'')"

text \<open>
  \<^verbatim>\<open>
  export function getDataSize(data: unknown): number {
    if (!data) return 0;
    if (typeof data === 'string') return data.length;
    try {
      return JSON.stringify(data).length;
    } catch {
      return 0;
    }
  }
  \<close>
  In the \<open>try\<close> block \<open>JSON.stringify\<close> throws on a circular structure, and reading
  \<open>length\<close> of its result \<open>undefined\<close> (for a function) throws a \<open>TypeError\<close>.
\<close>

definition getDataSize :: "jsval \<Rightarrow> js_error + nat" where
  "getDataSize data =
     (if \<not> truthy data then Inr 0
      else if typeof data = ''string'' then (case data of JStr s \<Rightarrow> Inr (length s) | _ \<Rightarrow> Inr 0)
      else try_catch
             (case JSON_stringify data 0 of
                Inl e \<Rightarrow> Inl e
              | Inr None \<Rightarrow> Inl (TypeError ''Cannot read properties of undefined'')
              | Inr (Some s) \<Rightarrow> Inr (length s))
             (Inr 0))"

section \<open>utils.ts: defaultFilename and buildFilepath\<close>

text \<open>
  \<^verbatim>\<open>
  export interface FilenameParams {
    ts: number; hostname: string; url: string; path: string; kind: LogKind; ext: LogExt;
  }
  \<close>
  \<open>ParamsNoExt\<close> is \<open>Omit<FilenameParams, 'ext'>\<close>, and \<open>FilenameParams\<close> extends it by the
  extension. The fields carry the prefix \<open>p_\<close>.
\<close>

record ParamsNoExt =
  p_ts :: int
  p_hostname :: string
  p_url :: string
  p_path :: string
  p_kind :: LogKind

record FilenameParams = ParamsNoExt +
  p_ext :: LogExt

type_synonym FilenameFunction = "FilenameParams \<Rightarrow> string"

text \<open>
  \<^verbatim>\<open>
  export const defaultFilename: FilenameFunction = ({ ts, hostname, path, kind, ext }) => {
    return `${ts}_${hostname}_${path}_${kind}.${ext}`;
  };
  \<close>
\<close>

definition defaultFilename :: FilenameFunction where
  "defaultFilename p =
     number_string (p_ts p) @ ''_'' @ p_hostname p @ ''_'' @ p_path p @ ''_''
     @ kind_str (p_kind p) @ ''.'' @ ext_str (p_ext p)"

text \<open>
  \<^verbatim>\<open>
  export function buildFilepath(dir, filenameFn, params: Omit<FilenameParams, 'ext'>, ext) {
    const filename = filenameFn({ ...params, ext });
    return `${dir}/${filename}`;
  }
  \<close>
\<close>

definition buildFilepath :: "string \<Rightarrow> FilenameFunction \<Rightarrow> ParamsNoExt \<Rightarrow> LogExt \<Rightarrow> string" where
  "buildFilepath dir filenameFn params e =
     (let filename = filenameFn \<lparr>p_ts = p_ts params, p_hostname = p_hostname params,
                                  p_url = p_url params, p_path = p_path params,
                                  p_kind = p_kind params, p_ext = e\<rparr>
      in dir @ ''/'' @ filename)"

section \<open>Promises and the platform\<close>

text \<open>
  An asynchronous operation acts on the world outside the program (the file system; its
  state has the type \<open>'w\<close>) and settles: \<open>Inr v\<close> is a promise resolved with \<open>v\<close>,
  \<open>Inl e\<close> one rejected with \<open>e\<close>.
\<close>

type_synonym ('a, 'w) async = "'w \<Rightarrow> (js_error + 'a) \<times> 'w"

text \<open>\<open>Promise.resolve(v)\<close>, and \<open>Promise.reject(e)\<close> or a \<open>throw\<close> in an async function.\<close>

definition resolve :: "'a \<Rightarrow> ('a, 'w) async" where
  "resolve v w = (Inr v, w)"

definition reject :: "js_error \<Rightarrow> ('a, 'w) async" where
  "reject e w = (Inl e, w)"

text \<open>
  \<open>const v = await p; k(v)\<close> in an async function: when \<open>p\<close> is rejected the function's
  promise is rejected with the same reason, and \<open>k\<close> does not run.
\<close>

definition await_then :: "('a, 'w) async \<Rightarrow> ('a \<Rightarrow> ('b, 'w) async) \<Rightarrow> ('b, 'w) async" where
  "await_then p k w = (case p w of (Inl e, w') \<Rightarrow> (Inl e, w') | (Inr v, w') \<Rightarrow> k v w')"

text \<open>
  A synchronous call inside an async function: an exception it throws rejects the
  function's promise.
\<close>

definition call_then :: "(js_error + 'a) \<Rightarrow> ('a \<Rightarrow> ('b, 'w) async) \<Rightarrow> ('b, 'w) async" where
  "call_then r k = (case r of Inl e \<Rightarrow> reject e | Inr v \<Rightarrow> k v)"

text \<open>\<open>p.catch(() => {})\<close>: a rejection of \<open>p\<close> becomes a promise resolved with \<open>undefined\<close>.\<close>

definition catch_ignore :: "(unit, 'w) async \<Rightarrow> (unit, 'w) async" where
  "catch_ignore p w = (case p w of (Inl e, w') \<Rightarrow> (Inr (), w') | (Inr v, w') \<Rightarrow> (Inr v, w'))"

text \<open>
  The platform's functions that the source imports: \<open>new URL\<close>, \<open>os.hostname\<close>,
  \<open>path.dirname\<close>, and of \<open>node:fs/promises\<close> \<open>mkdir(dir, { recursive: true })\<close> and
  \<open>writeFile(filepath, content)\<close>. They are parameters of the model. The content given to
  \<open>writeFile\<close> is \<open>None\<close> when the value that reaches it at run time is \<open>undefined\<close>, which
  \<open>JSON.stringify\<close> returns for \<open>undefined\<close> and for a function.
\<close>

record 'w platform =
  new_URL :: "string \<Rightarrow> js_error + URL"
  osHostname :: "js_error + string"
  dirname :: "string \<Rightarrow> string"
  mkdir :: "string \<Rightarrow> (unit, 'w) async"
  writeFile :: "string \<Rightarrow> string option \<Rightarrow> (unit, 'w) async"

section \<open>saveLog.ts\<close>

text \<open>
  \<^verbatim>\<open>
  export async function saveLog(filepath: string, content: string): Promise<void> {
    const dir = dirname(filepath);
    await mkdir(dir, { recursive: true }).catch(() => {});
    await writeFile(filepath, content).catch(() => {});
  }
  \<close>
\<close>

definition saveLog :: "'w platform \<Rightarrow> string \<Rightarrow> string option \<Rightarrow> (unit, 'w) async" where
  "saveLog pf filepath content =
     (let dir = dirname pf filepath in
      await_then (catch_ignore (mkdir pf dir)) (\<lambda>_.
      await_then (catch_ignore (writeFile pf filepath content)) (\<lambda>_.
      resolve ())))"

section \<open>createAxiosLogger.ts\<close>

text \<open>Optional values in a JSON document: an absent one is \<open>undefined\<close>.\<close>

definition opt_str :: "string option \<Rightarrow> jsval" where
  "opt_str a = (case a of None \<Rightarrow> JUndefined | Some s \<Rightarrow> JStr s)"

definition opt_num :: "int option \<Rightarrow> jsval" where
  "opt_num a = (case a of None \<Rightarrow> JUndefined | Some n \<Rightarrow> JNum n)"

definition headers_obj :: "headers \<Rightarrow> jsval" where
  "headers_obj hs = JObj (map (\<lambda>kv. (fst kv, JStr (snd kv))) hs)"

text \<open>
  \<open>start ? Date.now() - start : undefined\<close> for the stamped start time \<open>start\<close>, with
  \<open>now\<close> the value that \<open>Date.now()\<close> returns: the number 0 is falsy.
\<close>

definition elapsed :: "int option \<Rightarrow> int \<Rightarrow> int option" where
  "elapsed start now =
     (case start of None \<Rightarrow> None | Some t \<Rightarrow> if t \<noteq> 0 then Some (now - t) else None)"

text \<open>
  \<open>s.replace(old, new)\<close> with a string pattern: the first occurrence of \<open>old\<close> in \<open>s\<close> is
  replaced (the replacement of the source holds no \<open>$\<close> pattern).
\<close>

fun replace_first :: "string \<Rightarrow> string \<Rightarrow> string \<Rightarrow> string" where
  "replace_first [] old new = (if old = [] then new else [])"
| "replace_first (c # cs) old new =
     (if startsWith (c # cs) old then new @ drop (length old) (c # cs)
      else c # replace_first cs old new)"

text \<open>
  The request interceptor. \<open>dir\<close>, \<open>filenameFn\<close> and \<open>host\<close> are the variables of the
  enclosing \<open>createLoggerInterceptors\<close>; \<open>now1\<close> and \<open>now2\<close> are the values that the two
  calls of \<open>Date.now()\<close> return. The configuration is a mutable object: the result holds
  the settlement of the returned promise, the state of the configuration object after
  the call, and the world. The console line (\<open>log.trace\<close>) acts neither on the result
  nor on the file system and is left out; so are \<open>log.info\<close> and \<open>log.error\<close> below.
  \<^verbatim>\<open>
  const request = async (config) => {
    if (config.skipLog) {
      return config;
    }
    const path = config.logAs || config._logPath || getPathFromUrl(config.url || '');
    config._logPath = path;
    config._logStartTime = Date.now();
    const ts = Math.floor(Date.now() / 1000);
    const params = { ts, hostname: host, url: config.url || '', path, kind: 'req' as const };
    const reqData = {
      url: config.url,
      method: config.method?.toUpperCase(),
      headers: config.headers,
      data: config.data,
    };
    const filepath = buildFilepath(dir, filenameFn, params, 'json');
    const reqSize = getDataSize(config.data);
    log.trace(...);
    await saveLog(filepath, JSON.stringify(reqData, null, 2));
    return config;
  };
  \<close>
\<close>

definition request_path :: "(string \<Rightarrow> js_error + URL) \<Rightarrow> RequestConfig \<Rightarrow> js_error + string" where
  "request_path parse config =
     (case truthy_str (cfg_logAs config) of
        Some alias \<Rightarrow> Inr alias
      | None \<Rightarrow>
          (case truthy_str (cfg_logPath config) of
             Some prior \<Rightarrow> Inr prior
           | None \<Rightarrow> getPathFromUrl parse (or_str (cfg_url config) [])))"

definition reqData :: "RequestConfig \<Rightarrow> jsval" where
  "reqData config =
     JObj [(''url'', opt_str (cfg_url config)),
           (''method'', opt_str (map_option toUpperCase (cfg_method config))),
           (''headers'', headers_obj (cfg_headers config)),
           (''data'', cfg_data config)]"

definition request ::
  "'w platform \<Rightarrow> string \<Rightarrow> FilenameFunction \<Rightarrow> string \<Rightarrow> int \<Rightarrow> int \<Rightarrow> RequestConfig \<Rightarrow> 'w
   \<Rightarrow> (js_error + RequestConfig) \<times> RequestConfig \<times> 'w" where
  "request pf dir filenameFn host now1 now2 config w =
     (if is_set (cfg_skipLog config) then (Inr config, config, w)
      else case request_path (new_URL pf) config of
        Inl e \<Rightarrow> (Inl e, config, w)
      | Inr path \<Rightarrow>
          (let config' = config\<lparr>cfg_logPath := Some path, cfg_logStartTime := Some now1\<rparr>;
               ts = now2 div 1000;
               params = \<lparr>p_ts = ts, p_hostname = host, p_url = or_str (cfg_url config) [],
                         p_path = path, p_kind = Req\<rparr>;
               filepath = buildFilepath dir filenameFn params Json;
               (settled, w') =
                  call_then (JSON_stringify (reqData config) 2) (\<lambda>content.
                  await_then (saveLog pf filepath content) (\<lambda>_.
                  resolve config')) w
           in (settled, config', w')))"

text \<open>
  The response interceptor.
  \<^verbatim>\<open>
  const response = async (res) => {
    if (res.config.skipLog) {
      return res;
    }
    const path = res.config._logPath || 'response';
    const duration = res.config._logStartTime ? Date.now() - res.config._logStartTime : undefined;
    const ts = Math.floor(Date.now() / 1000);
    const params = { ts, hostname: host, url: res.config.url || '', path, kind: 'res' as const };
    const resMeta = { status: res.status, statusText: res.statusText, headers: res.headers, duration };
    const metaFilepath = buildFilepath(dir, filenameFn, params, 'json');
    const bodyExt = detectExt(res.data, res.headers as Record<string, unknown>);
    const bodyFilepath = buildFilepath(dir, filenameFn, { ...params, kind: 'res' }, bodyExt);
    const resSize = getDataSize(res.data);
    log.info(...);
    await saveLog(metaFilepath, JSON.stringify(resMeta, null, 2));
    if (bodyExt !== 'json') {
      const bodyContent =
        typeof res.data === 'string' ? res.data : JSON.stringify(res.data, null, 2);
      await saveLog(bodyFilepath, bodyContent);
    } else if (res.data) {
      const dataFilepath = metaFilepath.replace('_res.json', '_res_data.json');
      await saveLog(dataFilepath, JSON.stringify(res.data, null, 2));
    }
    return res;
  };
  \<close>
\<close>

definition resMeta :: "Response \<Rightarrow> int option \<Rightarrow> jsval" where
  "resMeta r duration =
     JObj [(''status'', JNum (res_status r)),
           (''statusText'', JStr (res_statusText r)),
           (''headers'', headers_obj (res_headers r)),
           (''duration'', opt_num duration)]"

definition res_params :: "string \<Rightarrow> int \<Rightarrow> Response \<Rightarrow> ParamsNoExt" where
  "res_params host now2 r =
     \<lparr>p_ts = now2 div 1000, p_hostname = host, p_url = or_str (cfg_url (res_config r)) [],
      p_path = or_str (cfg_logPath (res_config r)) ''response'', p_kind = Res\<rparr>"

definition bodyContent :: "jsval \<Rightarrow> js_error + string option" where
  "bodyContent d = (case d of JStr s \<Rightarrow> Inr (Some s) | _ \<Rightarrow> JSON_stringify d 2)"

definition response ::
  "'w platform \<Rightarrow> string \<Rightarrow> FilenameFunction \<Rightarrow> string \<Rightarrow> int \<Rightarrow> int \<Rightarrow> Response
   \<Rightarrow> (Response, 'w) async" where
  "response pf dir filenameFn host now1 now2 r =
     (if is_set (cfg_skipLog (res_config r)) then resolve r
      else
        let duration = elapsed (cfg_logStartTime (res_config r)) now1;
            params = res_params host now2 r;
            metaFilepath = buildFilepath dir filenameFn params Json;
            bodyExt = detectExt (res_data r) (Some (res_headers r));
            bodyFilepath = buildFilepath dir filenameFn (params\<lparr>p_kind := Res\<rparr>) bodyExt
        in
          call_then (JSON_stringify (resMeta r duration) 2) (\<lambda>meta.
          await_then (saveLog pf metaFilepath meta) (\<lambda>_.
            if bodyExt \<noteq> Json then
              call_then (bodyContent (res_data r)) (\<lambda>body.
              await_then (saveLog pf bodyFilepath body) (\<lambda>_.
              resolve r))
            else if truthy (res_data r) then
              (let dataFilepath = replace_first metaFilepath ''_res.json'' ''_res_data.json'' in
               call_then (JSON_stringify (res_data r) 2) (\<lambda>body.
               await_then (saveLog pf dataFilepath body) (\<lambda>_.
               resolve r)))
            else resolve r)))"

text \<open>
  The error interceptor. \<open>err.config?.f\<close> is \<open>undefined\<close> when the error has no
  configuration, and so is \<open>err.response?.f\<close> when it has no response.
  \<^verbatim>\<open>
  const error = async (err) => {
    if (err.config?.skipLog) {
      return Promise.reject(err);
    }
    const path = err.config?._logPath || 'error';
    const duration = err.config?._logStartTime ? Date.now() - err.config._logStartTime : undefined;
    const ts = Math.floor(Date.now() / 1000);
    const params = { ts, hostname: host, url: err.config?.url || '', path, kind: 'err' as const };
    const errData = {
      message: err.message,
      code: err.code,
      status: err.response?.status,
      statusText: err.response?.statusText,
      headers: err.response?.headers,
      duration,
      data: err.response?.data,
    };
    const filepath = buildFilepath(dir, filenameFn, params, 'json');
    const resSize = getDataSize(err.response?.data);
    log.error(...);
    await saveLog(filepath, JSON.stringify(errData, null, 2));
    return Promise.reject(err);
  };
  \<close>
\<close>

definition errData :: "AxiosError \<Rightarrow> int option \<Rightarrow> jsval" where
  "errData err duration =
     JObj [(''message'', JStr (err_message err)),
           (''code'', opt_str (err_code err)),
           (''status'', opt_num (map_option res_status (err_response err))),
           (''statusText'', opt_str (map_option res_statusText (err_response err))),
           (''headers'', (case err_response err of
                            None \<Rightarrow> JUndefined | Some r \<Rightarrow> headers_obj (res_headers r))),
           (''duration'', opt_num duration),
           (''data'', (case err_response err of None \<Rightarrow> JUndefined | Some r \<Rightarrow> res_data r))]"

definition err_params :: "string \<Rightarrow> int \<Rightarrow> AxiosError \<Rightarrow> ParamsNoExt" where
  "err_params host now2 err =
     \<lparr>p_ts = now2 div 1000, p_hostname = host,
      p_url = or_str (Option.bind (err_config err) cfg_url) [],
      p_path = or_str (Option.bind (err_config err) cfg_logPath) ''error'', p_kind = Err\<rparr>"

definition error ::
  "'w platform \<Rightarrow> string \<Rightarrow> FilenameFunction \<Rightarrow> string \<Rightarrow> int \<Rightarrow> int \<Rightarrow> AxiosError
   \<Rightarrow> (unit, 'w) async" where
  "error pf dir filenameFn host now1 now2 err =
     (if is_set (Option.bind (err_config err) cfg_skipLog) then reject (Failure err)
      else
        let duration = elapsed (Option.bind (err_config err) cfg_logStartTime) now1;
            params = err_params host now2 err;
            filepath = buildFilepath dir filenameFn params Json
        in
          call_then (JSON_stringify (errData err duration) 2) (\<lambda>content.
          await_then (saveLog pf filepath content) (\<lambda>_.
          reject (Failure err))))"

text \<open>
  \<^verbatim>\<open>
  export function createLoggerInterceptors(options: LoggerOptions): LoggerInterceptors {
    const { dir } = options;
    const filenameFn = options.filename ?? defaultFilename;
    const host = getHostname();
    ...
    return { request, response, error, logDir: dir };
  }
  \<close>
  The three interceptors take the values of \<open>Date.now()\<close> as arguments.
\<close>

record LoggerOptions =
  opt_dir :: string
  opt_filename :: "FilenameFunction option"

record 'w LoggerInterceptors =
  hook_request :: "int \<Rightarrow> int \<Rightarrow> RequestConfig \<Rightarrow> 'w
                   \<Rightarrow> (js_error + RequestConfig) \<times> RequestConfig \<times> 'w"
  hook_response :: "int \<Rightarrow> int \<Rightarrow> Response \<Rightarrow> (Response, 'w) async"
  hook_error :: "int \<Rightarrow> int \<Rightarrow> AxiosError \<Rightarrow> (unit, 'w) async"
  logDir :: string

definition createLoggerInterceptors ::
  "'w platform \<Rightarrow> LoggerOptions \<Rightarrow> js_error + 'w LoggerInterceptors" where
  "createLoggerInterceptors pf options =
     (let dir = opt_dir options;
          filenameFn = (case opt_filename options of None \<Rightarrow> defaultFilename | Some f \<Rightarrow> f)
      in case getHostname (osHostname pf) of
           Inl e \<Rightarrow> Inl e
         | Inr host \<Rightarrow>
             Inr \<lparr>hook_request = request pf dir filenameFn host,
                  hook_response = response pf dir filenameFn host,
                  hook_error = error pf dir filenameFn host,
                  logDir = dir\<rparr>)"

section \<open>A reference platform\<close>

text \<open>
  An in-memory file system for the concrete examples: the files with their contents, the
  directories, and a switch that makes every write fail. \<open>posix_dirname\<close> follows
  \<open>path.posix.dirname\<close>; \<open>disk_mkdir\<close> creates the directory and its ancestors;
  \<open>disk_writeFile\<close> fails on a content that is not a string, on a read-only disk and in
  a directory that does not exist, and otherwise replaces the content of the file.
  Files and directories are kept apart: the disk does not model the failure of a path
  that names a file where a directory is wanted, or a directory where a file is wanted.
  The theorems about the interceptors hold for every platform.
\<close>

record disk =
  files :: "(string \<times> string) list"
  dirs :: "string list"
  read_only :: bool

definition posix_dirname :: "string \<Rightarrow> string" where
  "posix_dirname p =
     (if p = [] then ''.''
      else
        let r = dropWhile (\<lambda>c. c \<noteq> CHR ''/'') (dropWhile (\<lambda>c. c = CHR ''/'') (rev (tl p)))
        in if r = [] then (if hd p = CHR ''/'' then ''/'' else ''.'')
           else if hd p = CHR ''/'' \<and> tl r = [] then ''//''
           else hd p # rev (tl r))"

definition ancestors :: "string \<Rightarrow> string list" where
  "ancestors d =
     [take (Suc i) d. i \<leftarrow> [0..<length d],
        d ! i \<noteq> CHR ''/'' \<and> (Suc i = length d \<or> d ! Suc i = CHR ''/'')]"

definition disk_mkdir :: "string \<Rightarrow> (unit, disk) async" where
  "disk_mkdir d k =
     (if read_only k then (Inl (SystemError ''EACCES''), k)
      else (Inr (), k\<lparr>dirs := remdups (dirs k @ d # ancestors d)\<rparr>))"

definition disk_writeFile :: "string \<Rightarrow> string option \<Rightarrow> (unit, disk) async" where
  "disk_writeFile p content k =
     (case content of
        None \<Rightarrow> (Inl (TypeError ''ERR_INVALID_ARG_TYPE''), k)
      | Some c \<Rightarrow>
          if read_only k then (Inl (SystemError ''EACCES''), k)
          else if posix_dirname p \<notin> set (dirs k) then (Inl (SystemError ''ENOENT''), k)
          else (Inr (), k\<lparr>files := (p, c) # filter (\<lambda>f. fst f \<noteq> p) (files k)\<rparr>))"

definition disk_platform :: "disk platform" where
  "disk_platform =
     \<lparr>new_URL = simple_URL, osHostname = Inr ''MacBook.local'', dirname = posix_dirname,
      mkdir = disk_mkdir, writeFile = disk_writeFile\<rparr>"

definition empty_disk :: disk where
  "empty_disk = \<lparr>files = [], dirs = [], read_only = False\<rparr>"

section \<open>The spec's words for the sibling path\<close>

text \<open>
  The spec describes the path of the body file of a JSON response as "obtained by
  substituting the metadata file's \<open>_res.json\<close> suffix with \<open>_res_data.json\<close>".
  \<open>substitute_suffix\<close> follows these words, to be compared with the source's
  \<open>replace_first\<close>.
\<close>

definition substitute_suffix :: "string \<Rightarrow> string \<Rightarrow> string \<Rightarrow> string" where
  "substitute_suffix s old new =
     (if endsWith s old then take (length s - length old) s @ new else s)"

section \<open>tests/createAxiosLogger.test.ts: the fixtures\<close>

text \<open>
  The request, the response and the error that the repository's tests build
  (\<open>makeRequestConfig\<close>, \<open>makeResponse\<close>, \<open>makeAxiosError\<close>); a test overrides single
  fields of them, which is a record update here.
  \<^verbatim>\<open>
  function makeRequestConfig(overrides = {}) {
    return {
      url: 'https://api.example.com/v1/player',
      method: 'get',
      headers: { 'Content-Type': 'application/json' },
      ...overrides,
    };
  }
  function makeResponse(config, overrides = {}) {
    return {
      status: 200,
      statusText: 'OK',
      headers: { 'content-type': 'application/json' },
      data: { result: 'ok' },
      config,
      ...overrides,
    };
  }
  function makeAxiosError(config, overrides = {}) {
    const error = new Error('Request failed') as AxiosError;
    error.config = config;
    error.code = 'ERR_BAD_RESPONSE';
    error.response = {
      status: 500,
      statusText: 'Internal Server Error',
      headers: { 'content-type': 'application/json' },
      data: { error: 'Something went wrong' },
      config,
    };
    Object.assign(error, overrides);
    return error;
  }
  \<close>
\<close>

definition makeRequestConfig :: RequestConfig where
  "makeRequestConfig =
     \<lparr>cfg_url = Some ''https://api.example.com/v1/player'', cfg_method = Some ''get'',
      cfg_headers = [(''Content-Type'', ''application/json'')], cfg_data = JUndefined,
      cfg_logAs = None, cfg_skipLog = None, cfg_logPath = None, cfg_logStartTime = None\<rparr>"

definition makeResponse :: "RequestConfig \<Rightarrow> Response" where
  "makeResponse config =
     \<lparr>res_status = 200, res_statusText = ''OK'',
      res_headers = [(''content-type'', ''application/json'')],
      res_data = JObj [(''result'', JStr ''ok'')], res_config = config\<rparr>"

definition makeAxiosError :: "RequestConfig \<Rightarrow> AxiosError" where
  "makeAxiosError config =
     \<lparr>err_message = ''Request failed'', err_code = Some ''ERR_BAD_RESPONSE'',
      err_config = Some config,
      err_response =
        Some \<lparr>res_status = 500, res_statusText = ''Internal Server Error'',
              res_headers = [(''content-type'', ''application/json'')],
              res_data = JObj [(''error'', JStr ''Something went wrong'')],
              res_config = config\<rparr>\<rparr>"

text \<open>
  A body that refers to itself, as the test of \<open>getDataSize\<close> builds it
  (\<open>const obj = {}; obj.self = obj\<close>).
\<close>

definition circular_body :: jsval where
  "circular_body = JObj [(''self'', JCircular)]"

chapter \<open>The properties\<close>

section \<open>Properties of sanitize\<close>

lemma underscore_not_alnum: "\<not> is_alnum CHR ''_''"
  by (simp add: is_alnum_def lowers_def uppers_def digits_def)

lemma colon_not_out_char: "\<not> is_out_char CHR '':''"
  by (simp add: is_out_char_def lowers_def digits_def)

lemma out_char_alnum_or_us: "is_out_char c \<Longrightarrow> is_alnum c \<or> c = CHR ''_''"
  by (auto simp: is_out_char_def is_alnum_def)

lemma lower_char_upper: "c \<in> set uppers \<Longrightarrow> lower_char c \<in> set lowers"
  by (auto simp: lower_char_def uppers_def lowers_def)

lemma lower_char_other: "c \<notin> set uppers \<Longrightarrow> lower_char c = c"
proof -
  assume "c \<notin> set uppers"
  then have "map_of (zip uppers lowers) c = None"
    by (simp add: map_of_eq_None_iff uppers_def lowers_def)
  then show ?thesis by (simp add: lower_char_def)
qed

lemma lowers_not_upper: "c \<in> set lowers \<Longrightarrow> c \<notin> set uppers"
  by (auto simp: uppers_def lowers_def)

lemma digits_not_upper: "c \<in> set digits \<Longrightarrow> c \<notin> set uppers"
  by (auto simp: uppers_def digits_def)

lemma underscore_not_upper: "CHR ''_'' \<notin> set uppers"
  by (simp add: uppers_def)

lemma underscore_not_lower: "CHR ''_'' \<notin> set lowers"
  by (simp add: lowers_def)

lemma lower_char_out: "is_alnum c \<or> c = CHR ''_'' \<Longrightarrow> is_out_char (lower_char c)"
  unfolding is_alnum_def is_out_char_def
  using lower_char_upper [of c] lower_char_other [of c]
        lowers_not_upper [of c] digits_not_upper [of c] underscore_not_upper
  by metis

lemma lower_char_fixed: "is_out_char c \<Longrightarrow> lower_char c = c"
  unfolding is_out_char_def
  using lower_char_other [of c] lowers_not_upper [of c] digits_not_upper [of c]
        underscore_not_upper
  by metis

lemma lower_char_underscore: "lower_char c = CHR ''_'' \<longleftrightarrow> c = CHR ''_''"
proof (cases "c \<in> set uppers")
  case True
  then have "lower_char c \<in> set lowers" by (rule lower_char_upper)
  with True show ?thesis using underscore_not_lower underscore_not_upper by metis
next
  case False
  then show ?thesis by (simp add: lower_char_other)
qed

lemma no_double_us_Cons:
  "no_double_us (c # s) =
     ((case s of [] \<Rightarrow> True | d # _ \<Rightarrow> \<not> (c = CHR ''_'' \<and> d = CHR ''_'')) \<and> no_double_us s)"
  by (cases s) simp_all

lemma no_double_us_append:
  "no_double_us (xs @ ys) \<Longrightarrow> no_double_us xs \<and> no_double_us ys"
proof (induction xs rule: no_double_us.induct)
  case (1 c d cs)
  then show ?case by simp
next
  case (2 c)
  then show ?case by (cases ys) simp_all
next
  case 3
  then show ?case by simp
qed

lemma replace_runs_chars:
  "x \<in> set (replace_runs P r s) \<Longrightarrow> x \<in> set r \<or> (x \<in> set s \<and> \<not> P x)"
proof (induction P r s rule: replace_runs.induct)
  case (1 P r)
  then show ?case by simp
next
  case (2 P r c cs)
  show ?case
  proof (cases "P c")
    case True
    with 2 have "x \<in> set r \<or> x \<in> set (replace_runs P r (dropWhile P cs))" by simp
    with 2 True have "x \<in> set r \<or> (x \<in> set (dropWhile P cs) \<and> \<not> P x)" by blast
    then show ?thesis using set_dropWhileD [of x P cs] by auto
  next
    case False
    with 2 show ?thesis by auto
  qed
qed

lemma replace_runs_head:
  "\<not> P x \<Longrightarrow> replace_runs P r (x # xs) = x # replace_runs P r xs"
  by simp

lemma replace_runs_no_double:
  assumes us: "P CHR ''_''"
  shows "no_double_us (replace_runs P ''_'' s)"
  using us
proof (induction P "''_''" s rule: replace_runs.induct)
  case (1 P)
  then show ?case by simp
next
  case (2 P c cs)
  show ?case
  proof (cases "P c")
    case True
    note Pc = True
    show ?thesis
    proof (cases "dropWhile P cs")
      case Nil
      with Pc show ?thesis by (simp del: dropWhile_eq_Nil_conv)
    next
      case (Cons d ds)
      then have "\<not> P d" using hd_dropWhile [of P cs] by auto
      moreover from this 2(3) have "d \<noteq> CHR ''_''" by auto
      ultimately show ?thesis using 2 Pc Cons by (simp del: dropWhile_eq_Nil_conv)
    qed
  next
    case False
    with 2(3) have "c \<noteq> CHR ''_''" by auto
    with 2 False show ?thesis by (simp add: no_double_us_Cons split: list.split)
  qed
qed

lemma replace_runs_fixed:
  assumes "\<And>c. c \<in> set s \<Longrightarrow> P c \<Longrightarrow> c = CHR ''_''" and "no_double_us s"
  shows "replace_runs P ''_'' s = s"
  using assms
proof (induction s)
  case Nil
  then show ?case by simp
next
  case (Cons c cs)
  have nd: "no_double_us cs" using Cons.prems(2) by (simp add: no_double_us_Cons)
  have ih: "replace_runs P ''_'' cs = cs" using Cons nd by simp
  show ?case
  proof (cases "P c")
    case True
    then have c: "c = CHR ''_''" using Cons.prems(1) by simp
    have "dropWhile P cs = cs"
    proof (cases cs)
      case Nil
      then show ?thesis by simp
    next
      case (Cons d ds)
      with c \<open>no_double_us (c # cs)\<close> have "d \<noteq> CHR ''_''" by simp
      with Cons Cons.prems(1) have "\<not> P d" by auto
      with Cons show ?thesis by simp
    qed
    with True c ih show ?thesis by simp
  next
    case False
    with ih show ?thesis by simp
  qed
qed

lemma trim_prefix: "\<exists>t. s = rev (dropWhile P (rev s)) @ t"
proof -
  have "rev (takeWhile P (rev s) @ dropWhile P (rev s)) = rev (rev s)"
    by (simp only: takeWhile_dropWhile_id)
  then have "s = rev (dropWhile P (rev s)) @ rev (takeWhile P (rev s))"
    by (simp only: rev_append rev_rev_ident)
  then show ?thesis ..
qed

lemma trim_underscores_chars: "set (trim_underscores s) \<subseteq> set s"
proof -
  have "set (trim_underscores s) \<subseteq> set (dropWhile is_underscore s)"
    unfolding trim_underscores_def using set_dropWhileD by fastforce
  then show ?thesis using set_dropWhileD by fastforce
qed

lemma no_double_us_dropWhile: "no_double_us s \<Longrightarrow> no_double_us (dropWhile P s)"
proof -
  assume a: "no_double_us s"
  have "s = takeWhile P s @ dropWhile P s" by simp
  with a no_double_us_append [of "takeWhile P s" "dropWhile P s"] show ?thesis by simp
qed

lemma trim_underscores_no_double:
  assumes "no_double_us s" shows "no_double_us (trim_underscores s)"
proof -
  let ?u = "dropWhile is_underscore s"
  have u: "no_double_us ?u" using assms by (rule no_double_us_dropWhile)
  obtain t where "?u = rev (dropWhile is_underscore (rev ?u)) @ t"
    using trim_prefix [of ?u is_underscore] by blast
  with u no_double_us_append [of "rev (dropWhile is_underscore (rev ?u))" t]
  show ?thesis by (simp add: trim_underscores_def)
qed

lemma not_startsWith_us: "(s \<noteq> [] \<Longrightarrow> hd s \<noteq> CHR ''_'') \<Longrightarrow> \<not> startsWith s ''_''"
  by (cases s) (auto simp: startsWith_def)

lemma not_endsWith_us: "(s \<noteq> [] \<Longrightarrow> last s \<noteq> CHR ''_'') \<Longrightarrow> \<not> endsWith s ''_''"
  by (cases s rule: rev_cases) (auto simp: endsWith_def)

lemma startsWith_us_hd: "\<not> startsWith s ''_'' \<Longrightarrow> s \<noteq> [] \<Longrightarrow> hd s \<noteq> CHR ''_''"
  by (cases s) (auto simp: startsWith_def)

lemma endsWith_us_last: "\<not> endsWith s ''_'' \<Longrightarrow> s \<noteq> [] \<Longrightarrow> last s \<noteq> CHR ''_''"
  by (cases s rule: rev_cases) (auto simp: endsWith_def)

lemma trim_underscores_ends:
  "\<not> startsWith (trim_underscores s) ''_'' \<and> \<not> endsWith (trim_underscores s) ''_''"
proof -
  let ?u = "dropWhile is_underscore s"
  let ?v = "dropWhile is_underscore (rev ?u)"
  have v: "?v \<noteq> [] \<Longrightarrow> \<not> is_underscore (hd ?v)" by (rule hd_dropWhile)
  have u: "?u \<noteq> [] \<Longrightarrow> \<not> is_underscore (hd ?u)" by (rule hd_dropWhile)
  obtain t where t: "?u = rev ?v @ t" using trim_prefix [of ?u is_underscore] by blast
  have front: "rev ?v \<noteq> [] \<Longrightarrow> hd (rev ?v) \<noteq> CHR ''_''"
  proof -
    assume ne: "rev ?v \<noteq> []"
    then have "hd ?u = hd (rev ?v)" using t by (metis hd_append2)
    moreover have "?u \<noteq> []" using t ne by (metis append_is_Nil_conv)
    ultimately show ?thesis using u by (simp add: is_underscore_def)
  qed
  have rear: "rev ?v \<noteq> [] \<Longrightarrow> last (rev ?v) \<noteq> CHR ''_''"
    using v by (simp add: last_rev is_underscore_def del: dropWhile_eq_Nil_conv)
  have "\<not> startsWith (rev ?v) ''_''" using front by (rule not_startsWith_us)
  moreover have "\<not> endsWith (rev ?v) ''_''" using rear by (rule not_endsWith_us)
  ultimately show ?thesis by (simp add: trim_underscores_def)
qed

lemma trim_underscores_fixed:
  assumes "\<not> startsWith s ''_''" and "\<not> endsWith s ''_''"
  shows "trim_underscores s = s"
proof (cases s)
  case Nil
  then show ?thesis by (simp add: trim_underscores_def)
next
  case (Cons a as)
  then have "hd s \<noteq> CHR ''_''" using assms(1) startsWith_us_hd by blast
  with Cons have 1: "dropWhile is_underscore s = s" by (simp add: is_underscore_def)
  have "s \<noteq> []" using Cons by simp
  then have "last s \<noteq> CHR ''_''" using assms(2) endsWith_us_last by blast
  with \<open>s \<noteq> []\<close> have "hd (rev s) \<noteq> CHR ''_''" by (simp add: hd_rev)
  moreover have "rev s \<noteq> []" using \<open>s \<noteq> []\<close> by simp
  ultimately have "dropWhile is_underscore (rev s) = rev s"
    by (cases "rev s") (simp_all add: is_underscore_def)
  with 1 show ?thesis by (simp add: trim_underscores_def)
qed

lemma startsWith_chars: "startsWith s p \<Longrightarrow> set p \<subseteq> set s"
  unfolding startsWith_def using set_take_subset [of "length p" s] by metis

lemma strip_scheme_fixed:
  assumes "CHR '':'' \<notin> set s" shows "strip_scheme s = s"
proof -
  have "\<not> startsWith s ''http://''" using assms startsWith_chars [of s "''http://''"] by auto
  moreover have "\<not> startsWith s ''https://''"
    using assms startsWith_chars [of s "''https://''"] by auto
  ultimately show ?thesis by (simp add: strip_scheme_def)
qed

lemma toLowerCase_fixed: "(\<And>c. c \<in> set s \<Longrightarrow> is_out_char c) \<Longrightarrow> toLowerCase s = s"
  unfolding toLowerCase_def by (induction s) (simp_all add: lower_char_fixed)

lemma toLowerCase_no_double: "no_double_us (toLowerCase s) = no_double_us s"
  unfolding toLowerCase_def
  by (induction s rule: no_double_us.induct) (simp_all add: lower_char_underscore)

lemma toLowerCase_startsWith_us: "startsWith (toLowerCase s) ''_'' = startsWith s ''_''"
  by (cases s) (simp_all add: startsWith_def toLowerCase_def lower_char_underscore)

lemma toLowerCase_endsWith_us: "endsWith (toLowerCase s) ''_'' = endsWith s ''_''"
  by (cases s rule: rev_cases) (simp_all add: endsWith_def toLowerCase_def lower_char_underscore)

text \<open>The string before the final lowercasing.\<close>

lemma sanitize_core:
  fixes str
  defines "t \<equiv> replace_runs is_underscore ''_'' (trim_underscores
              (replace_runs (\<lambda>c. \<not> is_alnum c) ''_'' (strip_scheme str)))"
  shows "(\<forall>c\<in>set t. is_alnum c \<or> c = CHR ''_'') \<and> no_double_us t
         \<and> \<not> startsWith t ''_'' \<and> \<not> endsWith t ''_''"
proof -
  let ?a = "replace_runs (\<lambda>c. \<not> is_alnum c) ''_'' (strip_scheme str)"
  let ?b = "trim_underscores ?a"
  have a_chars: "\<forall>c\<in>set ?a. is_alnum c \<or> c = CHR ''_''"
    using replace_runs_chars [of _ "\<lambda>c. \<not> is_alnum c" "''_''" "strip_scheme str"] by auto
  have a_nd: "no_double_us ?a"
    by (rule replace_runs_no_double) (rule underscore_not_alnum)
  have b_chars: "\<forall>c\<in>set ?b. is_alnum c \<or> c = CHR ''_''"
    using a_chars trim_underscores_chars [of ?a] by blast
  have b_nd: "no_double_us ?b" using a_nd by (rule trim_underscores_no_double)
  have "replace_runs is_underscore ''_'' ?b = ?b"
    using b_nd by (intro replace_runs_fixed) (simp_all add: is_underscore_def)
  then have "t = ?b" by (simp add: t_def)
  with b_chars b_nd trim_underscores_ends [of ?a] show ?thesis by simp
qed

lemma sanitize_clean:
  "(\<forall>c\<in>set (sanitize s). is_out_char c) \<and> no_double_us (sanitize s)
   \<and> \<not> startsWith (sanitize s) ''_'' \<and> \<not> endsWith (sanitize s) ''_''"
  using sanitize_core [of s]
  unfolding sanitize_def
  by (simp add: toLowerCase_no_double toLowerCase_startsWith_us toLowerCase_endsWith_us)
     (simp add: toLowerCase_def lower_char_out)

lemma sanitize_fixed:
  assumes chars: "\<forall>c\<in>set s. is_out_char c" and nd: "no_double_us s"
    and hd: "\<not> startsWith s ''_''" and tl: "\<not> endsWith s ''_''"
  shows "sanitize s = s"
proof -
  have "CHR '':'' \<notin> set s" using chars colon_not_out_char by blast
  then have 1: "strip_scheme s = s" by (rule strip_scheme_fixed)
  have 2: "replace_runs (\<lambda>c. \<not> is_alnum c) ''_'' s = s"
    using nd chars out_char_alnum_or_us by (intro replace_runs_fixed) auto
  have 3: "trim_underscores s = s" using hd tl by (rule trim_underscores_fixed)
  have 4: "replace_runs is_underscore ''_'' s = s"
    using nd by (intro replace_runs_fixed) (simp_all add: is_underscore_def)
  have 5: "toLowerCase s = s" using chars by (intro toLowerCase_fixed) simp
  show ?thesis by (simp add: sanitize_def 1 2 3 4 5)
qed

lemma no_double_us_includes: "no_double_us s \<longleftrightarrow> \<not> includes_str s ''__''"
  by (induction s rule: no_double_us.induct) (auto simp: startsWith_def)

lemmas char_class_defs = is_alnum_def is_out_char_def lowers_def uppers_def digits_def
  is_underscore_def

lemmas sanitize_eval = sanitize_def strip_scheme_def startsWith_def endsWith_def
  trim_underscores_def toLowerCase_def lower_char_def char_class_defs

text \<open>
  Claim C6. For every input string \<open>s\<close>, \<open>sanitize s\<close> consists of lowercase letters,
  digits and underscores only (it matches \<open>^[a-z0-9_]*$\<close>), it neither starts nor ends
  with an underscore and does not contain two underscores in a row; \<open>sanitize\<close> is
  idempotent; and the empty string is mapped to the empty string.
\<close>

theorem sanitize_output_idempotent:
  "(\<forall>c\<in>set (sanitize s). is_out_char c)
   \<and> \<not> startsWith (sanitize s) ''_''
   \<and> \<not> endsWith (sanitize s) ''_''
   \<and> \<not> includes_str (sanitize s) ''__''
   \<and> sanitize (sanitize s) = sanitize s
   \<and> sanitize [] = []"
proof -
  have "sanitize (sanitize s) = sanitize s"
    using sanitize_clean [of s] by (intro sanitize_fixed) simp_all
  moreover have "sanitize [] = []"
    by (simp add: sanitize_def strip_scheme_def startsWith_def trim_underscores_def toLowerCase_def)
  ultimately show ?thesis using sanitize_clean [of s] by (simp add: no_double_us_includes)
qed

theorem sanitize_output_idempotent_witness:
  "sanitize ''https://API.example.com/V1//Get_Player?id=1'' = ''api_example_com_v1_get_player_id_1''
   \<and> is_out_char (CHR ''a'')
   \<and> sanitize ''api_example_com_v1_get_player_id_1'' = ''api_example_com_v1_get_player_id_1''"
proof -
  let ?x = "''https://API.example.com/V1//Get_Player?id=1''"
  have e: "sanitize ?x = ''api_example_com_v1_get_player_id_1''"
    by (simp add: sanitize_eval)
  have "sanitize (sanitize ?x) = sanitize ?x"
    using sanitize_output_idempotent [of ?x] by blast
  then have "sanitize ''api_example_com_v1_get_player_id_1'' = ''api_example_com_v1_get_player_id_1''"
    by (simp only: e)
  moreover have "is_out_char (CHR ''a'')" by (simp add: char_class_defs)
  ultimately show ?thesis using e by blast
qed

section \<open>Properties of getPathFromUrl\<close>

lemma sanitize_v1_player: "sanitize ''/v1/player'' = ''v1_player''"
  by (simp add: sanitize_eval)

lemma sanitize_api_users: "sanitize ''/api/users'' = ''api_users''"
  by (simp add: sanitize_eval)

lemma sanitize_empty: "sanitize [] = []"
  by (simp add: sanitize_eval)

lemma getPathFromUrl_parsed:
  "parse url = Inr u \<Longrightarrow> getPathFromUrl parse url = Inr (sanitize (url_pathname u))"
  by (simp add: getPathFromUrl_def try_catch_def)

lemma getPathFromUrl_thrown:
  "parse url = Inl e \<Longrightarrow>
   getPathFromUrl parse url = Inr (sanitize (split_first url CHR ''?''))"
  by (simp add: getPathFromUrl_def try_catch_def)

lemma split_first_decomposes:
  "sep \<notin> set (split_first s sep)
   \<and> (\<exists>r. s = split_first s sep @ r \<and> startsWith r [sep] = (r \<noteq> []))"
proof -
  let ?r = "dropWhile (\<lambda>c. c \<noteq> sep) s"
  have 1: "sep \<notin> set (split_first s sep)"
    unfolding split_first_def using set_takeWhileD [of sep "\<lambda>c. c \<noteq> sep" s] by blast
  have 2: "s = split_first s sep @ ?r" by (simp add: split_first_def)
  have 3: "startsWith ?r [sep] = (?r \<noteq> [])"
  proof (cases ?r)
    case Nil
    then show ?thesis by (simp add: startsWith_def del: dropWhile_eq_Nil_conv)
  next
    case (Cons a as)
    then have "\<not> a \<noteq> sep" using hd_dropWhile [of "\<lambda>c. c \<noteq> sep" s] by force
    with Cons show ?thesis by (simp add: startsWith_def del: dropWhile_eq_Nil_conv)
  qed
  from 1 2 3 show ?thesis by blast
qed

text \<open>
  Claim C7. For every input string and every outcome of the platform's URL parser,
  \<open>getPathFromUrl\<close> returns a value and never raises. When the string parses as an
  absolute URL the result is the sanitized path component, which does not depend on the
  scheme, the host or the query; otherwise the string is split at its first question
  mark and the sanitized part before it is returned. In particular
  \<open>https://api.example.com/v1/player?id=1\<close>, whose path component is \<open>/v1/player\<close>, gives
  \<open>v1_player\<close>, and \<open>/api/users?page=2\<close> and the empty string, which do not parse, give
  \<open>api_users\<close> and the empty string.
\<close>

theorem getPathFromUrl_total:
  "(\<exists>p. getPathFromUrl parse url = Inr p)
   \<and> (\<forall>u. parse url = Inr u \<longrightarrow>
          getPathFromUrl parse url = Inr (sanitize (url_pathname u)))
   \<and> (\<forall>e. parse url = Inl e \<longrightarrow>
          getPathFromUrl parse url = Inr (sanitize (split_first url CHR ''?''))
          \<and> CHR ''?'' \<notin> set (split_first url CHR ''?'')
          \<and> (\<exists>r. url = split_first url CHR ''?'' @ r \<and> startsWith r ''?'' = (r \<noteq> [])))
   \<and> (\<forall>u. parse ''https://api.example.com/v1/player?id=1'' = Inr u
            \<and> url_pathname u = ''/v1/player'' \<longrightarrow>
          getPathFromUrl parse ''https://api.example.com/v1/player?id=1'' = Inr ''v1_player'')
   \<and> (\<forall>e. parse ''/api/users?page=2'' = Inl e \<longrightarrow>
          getPathFromUrl parse ''/api/users?page=2'' = Inr ''api_users'')
   \<and> (\<forall>e. parse [] = Inl e \<longrightarrow> getPathFromUrl parse [] = Inr [])"
proof -
  have total: "\<exists>p. getPathFromUrl parse url = Inr p"
    by (cases "parse url") (simp_all add: getPathFromUrl_parsed getPathFromUrl_thrown)
  have ex1: "\<forall>u. parse ''https://api.example.com/v1/player?id=1'' = Inr u
            \<and> url_pathname u = ''/v1/player'' \<longrightarrow>
          getPathFromUrl parse ''https://api.example.com/v1/player?id=1'' = Inr ''v1_player''"
    by (simp add: getPathFromUrl_parsed sanitize_v1_player)
  have ex2: "\<forall>e. parse ''/api/users?page=2'' = Inl e \<longrightarrow>
          getPathFromUrl parse ''/api/users?page=2'' = Inr ''api_users''"
    by (simp add: getPathFromUrl_thrown split_first_def sanitize_api_users)
  have ex3: "\<forall>e. parse [] = Inl e \<longrightarrow> getPathFromUrl parse [] = Inr []"
    by (simp add: getPathFromUrl_thrown split_first_def sanitize_empty)
  from total ex1 ex2 ex3 show ?thesis
    using getPathFromUrl_parsed [of parse url] getPathFromUrl_thrown [of parse url]
          split_first_decomposes [of "CHR ''?''" url]
    by blast
qed

lemma simple_URL_absolute:
  "simple_URL ''https://api.example.com/v1/player?id=1'' =
     Inr \<lparr>url_protocol = ''https:'', url_host = ''api.example.com'', url_pathname = ''/v1/player'',
          url_search = ''?id=1''\<rparr>"
  by (simp add: simple_URL_def startsWith_def)

lemma simple_URL_relative: "simple_URL ''/api/users?page=2'' = Inl (TypeError ''Invalid URL'')"
  by (simp add: simple_URL_def startsWith_def)

lemma simple_URL_empty: "simple_URL [] = Inl (TypeError ''Invalid URL'')"
  by (simp add: simple_URL_def startsWith_def)

theorem getPathFromUrl_total_witness:
  "simple_URL ''https://api.example.com/v1/player?id=1'' =
     Inr \<lparr>url_protocol = ''https:'', url_host = ''api.example.com'', url_pathname = ''/v1/player'',
          url_search = ''?id=1''\<rparr>
   \<and> getPathFromUrl simple_URL ''https://api.example.com/v1/player?id=1'' = Inr ''v1_player''
   \<and> simple_URL ''/api/users?page=2'' = Inl (TypeError ''Invalid URL'')
   \<and> getPathFromUrl simple_URL ''/api/users?page=2'' = Inr ''api_users''
   \<and> simple_URL [] = Inl (TypeError ''Invalid URL'')
   \<and> getPathFromUrl simple_URL [] = Inr []"
  using getPathFromUrl_total [of simple_URL "''https://api.example.com/v1/player?id=1''"]
        simple_URL_absolute simple_URL_relative simple_URL_empty
  by (simp add: sanitize_v1_player)

section \<open>Properties of detectExt\<close>

text \<open>
  Claim C8. \<open>detectExt\<close> returns one of html, json and txt for every body value and
  every optional content type, with this precedence: a content type that contains
  \<open>html\<close> gives html; otherwise one that contains \<open>json\<close> gives json; otherwise a string
  body whose trimmed form starts with \<open><!\<close> or \<open><html\<close> gives html, and one that starts
  with \<open>{\<close> or \<open>[\<close> gives json; otherwise a structured value that is not null gives
  json; everything else gives txt. A string body that looks like JSON with an html
  content type gives html.
\<close>

theorem detectExt_precedence:
  "detectExt data hs \<in> {Html, Json, Txt}
   \<and> (ct_includes (content_type hs) ''html'' \<longrightarrow> detectExt data hs = Html)
   \<and> (\<not> ct_includes (content_type hs) ''html'' \<and> ct_includes (content_type hs) ''json''
        \<longrightarrow> detectExt data hs = Json)
   \<and> (\<not> ct_includes (content_type hs) ''html'' \<and> \<not> ct_includes (content_type hs) ''json''
        \<longrightarrow>
          (\<forall>s. data = JStr s \<longrightarrow>
             (if startsWith (trim s) ''<!'' \<or> startsWith (trim s) ''<html''
                then detectExt data hs = Html
              else if startsWith (trim s) ''{'' \<or> startsWith (trim s) ''[''
                then detectExt data hs = Json
              else detectExt data hs = Txt))
          \<and> ((\<forall>s. data \<noteq> JStr s) \<longrightarrow>
                detectExt data hs =
                  (if typeof data = ''object'' \<and> data \<noteq> JNull then Json else Txt)))
   \<and> detectExt (JStr ''{\"json\": true}'') (Some [(''content-type'', ''text/html'')]) = Html"
proof -
  have 1: "detectExt data hs \<in> {Html, Json, Txt}"
    by (cases "detectExt data hs") simp_all
  have 2: "detectExt (JStr ''{\"json\": true}'') (Some [(''content-type'', ''text/html'')]) = Html"
    by (simp add: detectExt_def content_type_def ct_includes_def startsWith_def)
  have 3: "\<forall>s. data = JStr s \<longrightarrow> \<not> ct_includes (content_type hs) ''html'' \<longrightarrow>
             \<not> ct_includes (content_type hs) ''json'' \<longrightarrow>
             (if startsWith (trim s) ''<!'' \<or> startsWith (trim s) ''<html''
                then detectExt data hs = Html
              else if startsWith (trim s) ''{'' \<or> startsWith (trim s) ''[''
                then detectExt data hs = Json
              else detectExt data hs = Txt)"
    by (simp add: detectExt_def sniff_def Let_def)
  have 4: "(\<forall>s. data \<noteq> JStr s) \<longrightarrow> \<not> ct_includes (content_type hs) ''html'' \<longrightarrow>
             \<not> ct_includes (content_type hs) ''json'' \<longrightarrow>
           detectExt data hs = (if typeof data = ''object'' \<and> data \<noteq> JNull then Json else Txt)"
    by (cases data) (simp_all add: detectExt_def sniff_def Let_def)
  have 5: "ct_includes (content_type hs) ''html'' \<longrightarrow> detectExt data hs = Html"
    by (simp add: detectExt_def)
  have 6: "\<not> ct_includes (content_type hs) ''html'' \<and> ct_includes (content_type hs) ''json''
        \<longrightarrow> detectExt data hs = Json"
    by (simp add: detectExt_def)
  from 1 2 3 4 5 6 show ?thesis by blast
qed

lemmas detectExt_eval = content_type_def ct_includes_def startsWith_def trim_def
  is_js_space_def js_whitespace_def

theorem detectExt_precedence_witness:
  "ct_includes (content_type (Some [(''content-type'', ''text/html'')])) ''html''
   \<and> detectExt (JStr ''data'') (Some [(''content-type'', ''text/html'')]) = Html
   \<and> \<not> ct_includes (content_type (Some [(''content-type'', ''application/json'')])) ''html''
   \<and> ct_includes (content_type (Some [(''content-type'', ''application/json'')])) ''json''
   \<and> detectExt (JStr ''data'') (Some [(''content-type'', ''application/json'')]) = Json
   \<and> \<not> ct_includes (content_type None) ''html'' \<and> \<not> ct_includes (content_type None) ''json''
   \<and> detectExt (JStr ''<!DOCTYPE html><html></html>'') None = Html
   \<and> detectExt (JStr ''  {\"key\": \"value\"}'') None = Json
   \<and> detectExt (JStr ''hello world'') None = Txt
   \<and> detectExt (JArr [JNum 1, JNum 2, JNum 3]) None = Json
   \<and> detectExt JNull None = Txt
   \<and> detectExt (JNum 42) None = Txt"
proof -
  have "detectExt (JStr ''data'') (Some [(''content-type'', ''text/html'')]) = Html"
    using detectExt_precedence [of "JStr ''data''" "Some [(''content-type'', ''text/html'')]"]
    by (simp add: detectExt_eval)
  moreover have "detectExt (JStr ''data'') (Some [(''content-type'', ''application/json'')]) = Json"
    using detectExt_precedence
            [of "JStr ''data''" "Some [(''content-type'', ''application/json'')]"]
    by (simp add: detectExt_eval)
  moreover have "detectExt (JStr ''<!DOCTYPE html><html></html>'') None = Html"
    using detectExt_precedence [of "JStr ''<!DOCTYPE html><html></html>''" None]
    by (simp add: detectExt_eval)
  moreover have "detectExt (JStr ''  {\"key\": \"value\"}'') None = Json"
    using detectExt_precedence [of "JStr ''  {\"key\": \"value\"}''" None]
    by (simp add: detectExt_eval)
  moreover have "detectExt (JStr ''hello world'') None = Txt"
    using detectExt_precedence [of "JStr ''hello world''" None]
    by (simp add: detectExt_eval)
  moreover have "detectExt (JArr [JNum 1, JNum 2, JNum 3]) None = Json"
    using detectExt_precedence [of "JArr [JNum 1, JNum 2, JNum 3]" None]
    by (simp add: detectExt_eval)
  moreover have "detectExt JNull None = Txt"
    using detectExt_precedence [of JNull None] by (simp add: detectExt_eval)
  moreover have "detectExt (JNum 42) None = Txt"
    using detectExt_precedence [of "JNum 42" None] by (simp add: detectExt_eval)
  ultimately show ?thesis by (simp add: detectExt_eval)
qed

section \<open>Properties of formatSize and getDataSize\<close>

lemma decimal_step: "10 \<le> n \<Longrightarrow> decimal n = decimal (n div 10) @ [digit_char (n mod 10)]"
  by (subst decimal.simps) simp

lemma decimal_small: "n < 10 \<Longrightarrow> decimal n = [digit_char n]"
  by (subst decimal.simps) simp

lemma decimal_nonempty: "decimal n \<noteq> []"
  by (subst decimal.simps) simp

lemma nearest_bound:
  assumes "0 < b"
  shows "2 * \<bar>int (nearest a b) * int b - int a\<bar> \<le> int b"
proof -
  let ?q = "(2 * a + b) div (2 * b)"
  define X where "X = int ?q * int b"
  have lo: "2 * b * ?q \<le> 2 * a + b" by simp
  have hi: "2 * a + b < 2 * b * ?q + 2 * b"
    using assms dividend_less_times_div [of "2 * b" "2 * a + b"] by (simp add: algebra_simps)
  have "int (2 * b * ?q) \<le> int (2 * a + b)" using lo by (rule iffD2 [OF of_nat_le_iff])
  then have 1: "2 * X \<le> 2 * int a + int b" by (simp add: X_def algebra_simps)
  have "int (2 * a + b) < int (2 * b * ?q + 2 * b)" using hi by (rule iffD2 [OF of_nat_less_iff])
  then have 2: "2 * int a + int b < 2 * X + 2 * int b" by (simp add: X_def algebra_simps)
  from 1 2 have "2 * \<bar>X - int a\<bar> \<le> int b" by (simp add: abs_if)
  then show ?thesis by (simp add: nearest_def X_def)
qed

lemma toFixed_1:
  assumes "10 \<le> nearest (a * 10) b"
  shows "toFixed a b 1 = decimal (nearest (a * 10) b div 10) @ ''.''
           @ [digit_char (nearest (a * 10) b mod 10)]"
proof -
  let ?m = "nearest (a * 10) b"
  have s: "decimal ?m = decimal (?m div 10) @ [digit_char (?m mod 10)]"
    using assms by (rule decimal_step)
  have "1 \<le> length (decimal (?m div 10))"
    by (simp add: Suc_le_eq decimal_nonempty)
  then show ?thesis unfolding toFixed_def Let_def by (simp add: s)
qed

lemma toFixed_2:
  assumes "100 \<le> nearest (a * 100) b"
  shows "toFixed a b 2 = decimal (nearest (a * 100) b div 100) @ ''.''
           @ [digit_char (nearest (a * 100) b div 10 mod 10), digit_char (nearest (a * 100) b mod 10)]"
proof -
  let ?m = "nearest (a * 100) b"
  have s: "decimal ?m = decimal (?m div 10) @ [digit_char (?m mod 10)]"
    using assms by (intro decimal_step) simp
  have "10 \<le> ?m div 10" using assms by simp
  then have s2: "decimal (?m div 10) =
      decimal (?m div 10 div 10) @ [digit_char (?m div 10 mod 10)]"
    by (rule decimal_step)
  have d: "?m div 10 div 10 = ?m div 100" by (simp add: div_mult2_eq [symmetric])
  have "1 \<le> length (decimal (?m div 100))"
    by (simp add: Suc_le_eq decimal_nonempty)
  then show ?thesis unfolding toFixed_def Let_def by (simp add: s s2 d)
qed

lemma nearest_mono: "a \<le> a' \<Longrightarrow> nearest a b \<le> nearest a' b"
  unfolding nearest_def by (intro div_le_mono) simp

lemma nearest_kb: "1024 \<le> bytes \<Longrightarrow> 10 \<le> nearest (bytes * 10) 1024"
proof -
  assume "1024 \<le> bytes"
  then have "nearest (1024 * 10) 1024 \<le> nearest (bytes * 10) 1024"
    by (intro nearest_mono) simp
  moreover have "nearest (1024 * 10) 1024 = 10" by (simp add: nearest_def)
  ultimately show ?thesis by simp
qed

lemma nearest_mb: "1024 * 1024 \<le> bytes \<Longrightarrow> 100 \<le> nearest (bytes * 100) (1024 * 1024)"
proof -
  assume "1024 * 1024 \<le> bytes"
  then have "nearest (1024 * 1024 * 100) (1024 * 1024) \<le> nearest (bytes * 100) (1024 * 1024)"
    by (intro nearest_mono) simp
  moreover have "nearest (1024 * 1024 * 100) (1024 * 1024) = 100" by (simp add: nearest_def)
  ultimately show ?thesis by simp
qed

lemma formatSize_B: "bytes < 1024 \<Longrightarrow> formatSize bytes = decimal bytes @ ''B''"
  by (simp add: formatSize_def)

lemma formatSize_KB:
  assumes "1024 \<le> bytes" "bytes < 1024 * 1024"
  shows "\<exists>m. formatSize bytes = decimal (m div 10) @ ''.'' @ [digit_char (m mod 10)] @ ''KB''
           \<and> 2 * \<bar>int m * 1024 - int bytes * 10\<bar> \<le> 1024"
proof -
  let ?m = "nearest (bytes * 10) 1024"
  have "formatSize bytes = toFixed bytes 1024 1 @ ''KB''" using assms by (simp add: formatSize_def)
  also have "\<dots> = decimal (?m div 10) @ ''.'' @ [digit_char (?m mod 10)] @ ''KB''"
    using toFixed_1 [OF nearest_kb [OF assms(1)]] by simp
  finally have 1: "formatSize bytes = decimal (?m div 10) @ ''.'' @ [digit_char (?m mod 10)] @ ''KB''" .
  have 2: "2 * \<bar>int ?m * 1024 - int bytes * 10\<bar> \<le> 1024"
    using nearest_bound [of 1024 "bytes * 10"] by simp
  from 1 2 show ?thesis by blast
qed

lemma formatSize_MB:
  assumes "1024 * 1024 \<le> bytes"
  shows "\<exists>m. formatSize bytes = decimal (m div 100) @ ''.''
              @ [digit_char (m div 10 mod 10), digit_char (m mod 10)] @ ''MB''
           \<and> 2 * \<bar>int m * 1048576 - int bytes * 100\<bar> \<le> 1048576"
proof -
  let ?m = "nearest (bytes * 100) (1024 * 1024)"
  have "formatSize bytes = toFixed bytes (1024 * 1024) 2 @ ''MB''"
    using assms by (simp add: formatSize_def)
  also have "\<dots> = decimal (?m div 100) @ ''.''
              @ [digit_char (?m div 10 mod 10), digit_char (?m mod 10)] @ ''MB''"
    using toFixed_2 [OF nearest_mb [OF assms(1)]] by simp
  finally have 1: "formatSize bytes = decimal (?m div 100) @ ''.''
              @ [digit_char (?m div 10 mod 10), digit_char (?m mod 10)] @ ''MB''" .
  have 2: "2 * \<bar>int ?m * 1048576 - int bytes * 100\<bar> \<le> 1048576"
    using nearest_bound [of "1024 * 1024" "bytes * 100"] by simp
  from 1 2 show ?thesis by blast
qed

lemmas decimal_eval = decimal.simps digit_char_def

lemma formatSize_examples:
  "formatSize 0 = ''0B'' \<and> formatSize 1023 = ''1023B'' \<and> formatSize 1024 = ''1.0KB''
   \<and> formatSize 1536 = ''1.5KB'' \<and> formatSize 10240 = ''10.0KB''
   \<and> formatSize 1048576 = ''1.00MB'' \<and> formatSize 5242880 = ''5.00MB''"
  by (simp add: formatSize_def toFixed_def nearest_def decimal_eval)

lemmas json_eval = JSON_stringify_def wrap_def quote_json_def quote_char_def number_string_def
  decimal_eval

lemma getDataSize_falsy: "\<not> truthy data \<Longrightarrow> getDataSize data = Inr 0"
  by (simp add: getDataSize_def)

lemma getDataSize_string: "getDataSize (JStr s) = Inr (length s)"
  by (simp add: getDataSize_def)

lemma getDataSize_serialized:
  "truthy data \<Longrightarrow> typeof data \<noteq> ''string'' \<Longrightarrow> JSON_stringify data 0 = Inr (Some s) \<Longrightarrow>
   getDataSize data = Inr (length s)"
  by (simp add: getDataSize_def try_catch_def)

lemma getDataSize_failed:
  "truthy data \<Longrightarrow> typeof data \<noteq> ''string'' \<Longrightarrow> JSON_stringify data 0 = Inl e \<Longrightarrow>
   getDataSize data = Inr 0"
  by (simp add: getDataSize_def try_catch_def)

lemma getDataSize_total: "\<exists>n. getDataSize data = Inr n"
  by (simp add: getDataSize_def try_catch_def split: sum.split option.split jsval.split)

lemma getDataSize_circular: "getDataSize (JObj [(''self'', JCircular)]) = Inr 0"
  by (simp add: getDataSize_def try_catch_def JSON_stringify_def)

text \<open>
  Claim C9. The logged size of a body value is 0 for an absent or falsy value, the
  length of the string for a string, the length of the JSON serialization for every
  other value that serializes, and 0, without raising, when the serialization fails, as
  on a self-referential structure. For a non-negative integer byte count \<open>n\<close> (a
  JavaScript number holds the integers up to \<open>MAX_SAFE_INTEGER\<close> exactly),
  \<open>formatSize n\<close> is the integer with the suffix \<open>B\<close> when \<open>n < 1024\<close>; \<open>n / 1024\<close> rounded
  to one decimal with the suffix \<open>KB\<close> when \<open>n\<close> is below 1024 * 1024; and
  \<open>n / 1024\<^sup>2\<close> rounded to two decimals with the suffix \<open>MB\<close> otherwise. Rounded to \<open>f\<close>
  decimals means: the digits are those of an integer \<open>m\<close> with
  \<open>|m / 10^f - x| \<le> 1 / (2 * 10^f)\<close>.
\<close>

theorem size_contract:
  "(\<not> truthy data \<longrightarrow> getDataSize data = Inr 0)
   \<and> (\<forall>s. data = JStr s \<longrightarrow> getDataSize data = Inr (length s))
   \<and> (truthy data \<and> typeof data \<noteq> ''string'' \<longrightarrow>
          (\<forall>s. JSON_stringify data 0 = Inr (Some s) \<longrightarrow> getDataSize data = Inr (length s))
        \<and> (\<forall>e. JSON_stringify data 0 = Inl e \<longrightarrow> getDataSize data = Inr 0))
   \<and> (\<exists>n. getDataSize data = Inr n)
   \<and> getDataSize (JObj [(''self'', JCircular)]) = Inr 0
   \<and> (bytes < 1024 \<longrightarrow> formatSize bytes = decimal bytes @ ''B'')
   \<and> (1024 \<le> bytes \<and> bytes < 1024 * 1024 \<longrightarrow>
          (\<exists>m. formatSize bytes =
                  decimal (m div 10) @ ''.'' @ [digit_char (m mod 10)] @ ''KB''
                \<and> 2 * \<bar>int m * 1024 - int bytes * 10\<bar> \<le> 1024))
   \<and> (1024 * 1024 \<le> bytes \<and> bytes \<le> MAX_SAFE_INTEGER \<longrightarrow>
          (\<exists>m. formatSize bytes =
                  decimal (m div 100) @ ''.''
                  @ [digit_char (m div 10 mod 10), digit_char (m mod 10)] @ ''MB''
                \<and> 2 * \<bar>int m * 1048576 - int bytes * 100\<bar> \<le> 1048576))"
  using getDataSize_falsy [of data] getDataSize_string getDataSize_serialized [of data]
        getDataSize_failed [of data] getDataSize_total [of data] getDataSize_circular
        formatSize_B [of bytes] formatSize_KB [of bytes] formatSize_MB [of bytes]
  by blast

theorem size_contract_witness:
  "getDataSize JUndefined = Inr 0
   \<and> getDataSize (JStr ''hello'') = Inr 5
   \<and> JSON_stringify (JObj [(''key'', JStr ''value'')]) 0 = Inr (Some ''{\"key\":\"value\"}'')
   \<and> getDataSize (JObj [(''key'', JStr ''value'')]) = Inr 15
   \<and> JSON_stringify (JObj [(''self'', JCircular)]) 0
        = Inl (TypeError ''Converting circular structure to JSON'')
   \<and> getDataSize (JObj [(''self'', JCircular)]) = Inr 0
   \<and> formatSize 0 = ''0B''
   \<and> formatSize 1536 = ''1.5KB''
   \<and> formatSize 1048576 = ''1.00MB''"
proof -
  have s: "JSON_stringify (JObj [(''key'', JStr ''value'')]) 0 = Inr (Some ''{\"key\":\"value\"}'')"
    by (simp add: json_eval)
  have c: "JSON_stringify (JObj [(''self'', JCircular)]) 0
        = Inl (TypeError ''Converting circular structure to JSON'')"
    by (simp add: json_eval)
  have m: "(1048576::nat) \<le> MAX_SAFE_INTEGER" by (simp add: MAX_SAFE_INTEGER_def)
  have "getDataSize JUndefined = Inr 0 \<and> formatSize 0 = decimal 0 @ ''B''"
    using size_contract [of JUndefined 0] by simp
  moreover have "getDataSize (JStr ''hello'') = Inr 5"
    using size_contract [of "JStr ''hello''" 0] by simp
  moreover have "getDataSize (JObj [(''key'', JStr ''value'')]) = Inr 15"
    using size_contract [of "JObj [(''key'', JStr ''value'')]" 0] s by simp
  moreover have "getDataSize (JObj [(''self'', JCircular)]) = Inr 0"
    using size_contract [of "JObj [(''self'', JCircular)]" 0] c by simp
  moreover have "\<exists>m. formatSize 1536 = decimal (m div 10) @ ''.'' @ [digit_char (m mod 10)] @ ''KB''"
    using size_contract [of JNull 1536] by auto
  moreover have "\<exists>m. formatSize 1048576 = decimal (m div 100) @ ''.''
                  @ [digit_char (m div 10 mod 10), digit_char (m mod 10)] @ ''MB''"
    using size_contract [of JNull 1048576] m by auto
  ultimately show ?thesis using s c formatSize_examples
    by (simp add: decimal_eval)
qed

section \<open>Properties of saveLog\<close>

lemma saveLog_effect:
  "saveLog pf filepath content w =
     (Inr (), snd (writeFile pf filepath content (snd (mkdir pf (dirname pf filepath) w))))"
  unfolding saveLog_def Let_def await_then_def catch_ignore_def resolve_def
  by (cases "mkdir pf (dirname pf filepath) w";
      cases "writeFile pf filepath content (snd (mkdir pf (dirname pf filepath) w))")
     (auto split: sum.splits)

lemma saveLog_disk_ok:
  assumes "\<not> read_only k"
  shows "saveLog disk_platform p (Some c) k =
           (Inr (), k\<lparr>dirs := remdups (dirs k @ posix_dirname p # ancestors (posix_dirname p)),
                       files := (p, c) # filter (\<lambda>f. fst f \<noteq> p) (files k)\<rparr>)"
  using assms
  by (simp add: saveLog_effect disk_platform_def disk_mkdir_def disk_writeFile_def)

lemma saveLog_disk_read_only:
  assumes "read_only k"
  shows "saveLog disk_platform p content k = (Inr (), k)"
  using assms
  by (simp add: saveLog_effect disk_platform_def disk_mkdir_def disk_writeFile_def
           split: option.split)

text \<open>
  Claim C2. For every destination path and content, on every platform, \<open>saveLog\<close> calls
  the recursive \<open>mkdir\<close> on the parent directory of the path and then \<open>writeFile\<close> on
  the path, whatever the outcome of \<open>mkdir\<close>, and its promise is resolved whatever the
  outcome of either call: a failure of the directory creation or of the write is
  swallowed. On the reference file system a successful call leaves the parent directory
  in place and the content as the content of the file, replacing an earlier one, and a
  call on a read-only disk resolves and changes nothing.
\<close>

theorem saveLog_never_rejects:
  "fst (saveLog pf filepath content w) = Inr ()
   \<and> snd (saveLog pf filepath content w)
       = snd (writeFile pf filepath content (snd (mkdir pf (dirname pf filepath) w)))
   \<and> (\<not> read_only k \<longrightarrow>
         fst (saveLog disk_platform p (Some c) k) = Inr ()
       \<and> map_of (files (snd (saveLog disk_platform p (Some c) k))) p = Some c
       \<and> posix_dirname p \<in> set (dirs (snd (saveLog disk_platform p (Some c) k))))
   \<and> (read_only k \<longrightarrow> saveLog disk_platform p (Some c) k = (Inr (), k))"
  using saveLog_disk_ok [of k p c] saveLog_disk_read_only [of k p "Some c"]
  by (simp add: saveLog_effect)

lemma posix_dirname_examples:
  "posix_dirname ''logs/nested/deep/test2.json'' = ''logs/nested/deep''
   \<and> posix_dirname ''test.json'' = ''.''
   \<and> posix_dirname ''/test.json'' = ''/''
   \<and> posix_dirname ''/var/logs/api_res.json'' = ''/var/logs''
   \<and> posix_dirname [] = ''.''"
  by (simp add: posix_dirname_def)

lemma ancestors_example:
  "ancestors ''logs/nested/deep'' = [''logs'', ''logs/nested'', ''logs/nested/deep'']"
  by (simp add: ancestors_def upt_rec)

theorem saveLog_never_rejects_witness:
  "saveLog disk_platform ''logs/nested/deep/test2.json'' (Some ''nested content'') empty_disk
     = (Inr (),
        \<lparr>files = [(''logs/nested/deep/test2.json'', ''nested content'')],
         dirs = [''logs'', ''logs/nested'', ''logs/nested/deep''],
         read_only = False\<rparr>)
   \<and> files (snd (saveLog disk_platform ''logs/overwrite.json'' (Some ''second'')
              (snd (saveLog disk_platform ''logs/overwrite.json'' (Some ''first'') empty_disk))))
       = [(''logs/overwrite.json'', ''second'')]
   \<and> saveLog disk_platform ''logs/test1.json'' (Some ''{}'') (empty_disk\<lparr>read_only := True\<rparr>)
       = (Inr (), empty_disk\<lparr>read_only := True\<rparr>)"
proof -
  have 1: "saveLog disk_platform ''logs/test1.json'' (Some ''{}'') (empty_disk\<lparr>read_only := True\<rparr>)
       = (Inr (), empty_disk\<lparr>read_only := True\<rparr>)"
    using saveLog_never_rejects
            [of disk_platform "''logs/test1.json''" "Some ''{}''" "empty_disk\<lparr>read_only := True\<rparr>"
                "empty_disk\<lparr>read_only := True\<rparr>" "''logs/test1.json''" "''{}''"]
    by (simp add: empty_disk_def)
  have 2: "saveLog disk_platform ''logs/nested/deep/test2.json'' (Some ''nested content'') empty_disk
     = (Inr (),
        \<lparr>files = [(''logs/nested/deep/test2.json'', ''nested content'')],
         dirs = [''logs'', ''logs/nested'', ''logs/nested/deep''],
         read_only = False\<rparr>)"
    by (simp add: saveLog_disk_ok empty_disk_def posix_dirname_def ancestors_def upt_rec)
  have 3: "files (snd (saveLog disk_platform ''logs/overwrite.json'' (Some ''second'')
              (snd (saveLog disk_platform ''logs/overwrite.json'' (Some ''first'') empty_disk))))
       = [(''logs/overwrite.json'', ''second'')]"
    by (simp add: saveLog_disk_ok empty_disk_def)
  from 1 2 3 show ?thesis by blast
qed

section \<open>Properties of the interceptors\<close>

lemma getPathFromUrl_returns: "\<exists>p. getPathFromUrl parse u = Inr p"
  by (cases "parse u") (simp_all add: getPathFromUrl_parsed getPathFromUrl_thrown)

lemma request_path_returns: "\<exists>p. request_path parse config = Inr p"
  using getPathFromUrl_returns [of parse "or_str (cfg_url config) []"]
  by (auto simp: request_path_def split: option.split)

lemma request_skip:
  "is_set (cfg_skipLog config) \<Longrightarrow>
   request pf dir filenameFn host now1 now2 config w = (Inr config, config, w)"
  by (simp add: request_def)

lemma request_stamps:
  assumes "\<not> is_set (cfg_skipLog config)" and "request_path (new_URL pf) config = Inr path"
  shows "fst (snd (request pf dir filenameFn host now1 now2 config w))
           = config\<lparr>cfg_logPath := Some path, cfg_logStartTime := Some now1\<rparr>"
  using assms by (simp add: request_def Let_def split: prod.split)

lemma request_logged:
  assumes "\<not> is_set (cfg_skipLog config)" and "request_path (new_URL pf) config = Inr path"
    and "JSON_stringify (reqData config) 2 = Inr content"
  shows "request pf dir filenameFn host now1 now2 config w =
           (Inr (config\<lparr>cfg_logPath := Some path, cfg_logStartTime := Some now1\<rparr>),
            config\<lparr>cfg_logPath := Some path, cfg_logStartTime := Some now1\<rparr>,
            snd (saveLog pf
                   (buildFilepath dir filenameFn
                      \<lparr>p_ts = now2 div 1000, p_hostname = host, p_url = or_str (cfg_url config) [],
                       p_path = path, p_kind = Req\<rparr> Json)
                   content w))"
  using assms
  by (simp add: request_def Let_def call_then_def await_then_def resolve_def saveLog_effect)

lemma request_rejected:
  assumes "\<not> is_set (cfg_skipLog config)" and "request_path (new_URL pf) config = Inr path"
    and "JSON_stringify (reqData config) 2 = Inl e"
  shows "request pf dir filenameFn host now1 now2 config w =
           (Inl e, config\<lparr>cfg_logPath := Some path, cfg_logStartTime := Some now1\<rparr>, w)"
  using assms
  by (simp add: request_def Let_def call_then_def reject_def)

lemma response_skip:
  "is_set (cfg_skipLog (res_config r)) \<Longrightarrow>
   response pf dir filenameFn host now1 now2 r w = (Inr r, w)"
  by (simp add: response_def resolve_def)

lemma error_skip:
  "is_set (Option.bind (err_config err) cfg_skipLog) \<Longrightarrow>
   error pf dir filenameFn host now1 now2 err w = (Inl (Failure err), w)"
  by (simp add: error_def reject_def)

text \<open>
  Claim C3. When the request configuration of an exchange has \<open>skipLog\<close> set to true,
  all three hooks short-circuit on every platform: the pre-request hook returns the
  configuration as it is, so without setting \<open>_logPath\<close> and \<open>_logStartTime\<close>, the
  post-response hook returns the response, and the on-error hook rejects with the
  original error; in all three the world is left as it was, so no file-system call was
  made.
\<close>

theorem skipLog_short_circuits:
  "(cfg_skipLog config = Some True \<longrightarrow>
      request pf dir filenameFn host now1 now2 config w = (Inr config, config, w))
   \<and> (cfg_skipLog (res_config r) = Some True \<longrightarrow>
      response pf dir filenameFn host now1 now2 r w = (Inr r, w))
   \<and> (Option.bind (err_config err) cfg_skipLog = Some True \<longrightarrow>
      error pf dir filenameFn host now1 now2 err w = (Inl (Failure err), w))"
  using request_skip [of config pf dir filenameFn host now1 now2 w]
        response_skip [of r pf dir filenameFn host now1 now2 w]
        error_skip [of err pf dir filenameFn host now1 now2 w]
  by (simp add: is_set_def)

theorem skipLog_short_circuits_witness:
  "cfg_skipLog (makeRequestConfig\<lparr>cfg_skipLog := Some True\<rparr>) = Some True
   \<and> request disk_platform ''logs'' defaultFilename ''macbook'' 1000 2000
         (makeRequestConfig\<lparr>cfg_skipLog := Some True\<rparr>) empty_disk
       = (Inr (makeRequestConfig\<lparr>cfg_skipLog := Some True\<rparr>),
          makeRequestConfig\<lparr>cfg_skipLog := Some True\<rparr>, empty_disk)
   \<and> cfg_logPath (makeRequestConfig\<lparr>cfg_skipLog := Some True\<rparr>) = None
   \<and> cfg_logStartTime (makeRequestConfig\<lparr>cfg_skipLog := Some True\<rparr>) = None
   \<and> response disk_platform ''logs'' defaultFilename ''macbook'' 1000 2000
         (makeResponse (makeRequestConfig\<lparr>cfg_skipLog := Some True\<rparr>)) empty_disk
       = (Inr (makeResponse (makeRequestConfig\<lparr>cfg_skipLog := Some True\<rparr>)), empty_disk)
   \<and> error disk_platform ''logs'' defaultFilename ''macbook'' 1000 2000
         (makeAxiosError (makeRequestConfig\<lparr>cfg_skipLog := Some True\<rparr>)) empty_disk
       = (Inl (Failure (makeAxiosError (makeRequestConfig\<lparr>cfg_skipLog := Some True\<rparr>))),
          empty_disk)
   \<and> files empty_disk = []"
  using skipLog_short_circuits
          [of "makeRequestConfig\<lparr>cfg_skipLog := Some True\<rparr>" disk_platform "''logs''"
              defaultFilename "''macbook''" 1000 2000 empty_disk
              "makeResponse (makeRequestConfig\<lparr>cfg_skipLog := Some True\<rparr>)"
              "makeAxiosError (makeRequestConfig\<lparr>cfg_skipLog := Some True\<rparr>)"]
  by (simp add: makeRequestConfig_def makeResponse_def makeAxiosError_def empty_disk_def)

text \<open>
  Claim C10. For every request configuration without \<open>skipLog\<close> whose \<open>logAs\<close> is the
  empty string, the pre-request hook ignores the alias, since \<open>||\<close> tests truthiness: the
  path that it stamps on the configuration is the prior \<open>_logPath\<close> when that is truthy
  and the sanitized path of the URL otherwise, the same path as for the configuration
  without any alias. The path never comes from the empty alias.
\<close>

theorem empty_alias_ignored:
  "cfg_logAs config = Some [] \<and> \<not> is_set (cfg_skipLog config) \<longrightarrow>
     (\<exists>path.
        (case truthy_str (cfg_logPath config) of
           Some prior \<Rightarrow> Inr prior
         | None \<Rightarrow> getPathFromUrl (new_URL pf) (or_str (cfg_url config) [])) = Inr path
      \<and> cfg_logPath (fst (snd (request pf dir filenameFn host now1 now2 config w))) = Some path
      \<and> cfg_logPath (fst (snd (request pf dir filenameFn host now1 now2
                                   (config\<lparr>cfg_logAs := None\<rparr>) w))) = Some path)"
proof (intro impI, elim conjE)
  assume empty_alias: "cfg_logAs config = Some []" and ns: "\<not> is_set (cfg_skipLog config)"
  obtain path where p: "request_path (new_URL pf) config = Inr path"
    using request_path_returns by blast
  have same: "request_path (new_URL pf) (config\<lparr>cfg_logAs := None\<rparr>) = Inr path"
    using p empty_alias
    by (auto simp: request_path_def truthy_str_def split: option.splits if_splits)
  have fallback: "(case truthy_str (cfg_logPath config) of
           Some prior \<Rightarrow> Inr prior
         | None \<Rightarrow> getPathFromUrl (new_URL pf) (or_str (cfg_url config) [])) = Inr path"
    using p empty_alias by (simp add: request_path_def truthy_str_def)
  have 1: "cfg_logPath (fst (snd (request pf dir filenameFn host now1 now2 config w))) = Some path"
    using request_stamps [OF ns p] by simp
  have "\<not> is_set (cfg_skipLog (config\<lparr>cfg_logAs := None\<rparr>))" using ns by simp
  from request_stamps [OF this same]
  have 2: "cfg_logPath (fst (snd (request pf dir filenameFn host now1 now2
                                   (config\<lparr>cfg_logAs := None\<rparr>) w))) = Some path"
    by simp
  from fallback 1 2 show "\<exists>path.
        (case truthy_str (cfg_logPath config) of
           Some prior \<Rightarrow> Inr prior
         | None \<Rightarrow> getPathFromUrl (new_URL pf) (or_str (cfg_url config) [])) = Inr path
      \<and> cfg_logPath (fst (snd (request pf dir filenameFn host now1 now2 config w))) = Some path
      \<and> cfg_logPath (fst (snd (request pf dir filenameFn host now1 now2
                                   (config\<lparr>cfg_logAs := None\<rparr>) w))) = Some path"
    by blast
qed

lemma getPathFromUrl_fixture:
  "getPathFromUrl simple_URL ''https://api.example.com/v1/player'' = Inr ''v1_player''"
proof -
  have "simple_URL ''https://api.example.com/v1/player'' =
     Inr \<lparr>url_protocol = ''https:'', url_host = ''api.example.com'',
          url_pathname = ''/v1/player'', url_search = []\<rparr>"
    by (simp add: simple_URL_def startsWith_def)
  then show ?thesis by (simp add: getPathFromUrl_parsed sanitize_v1_player)
qed

theorem empty_alias_ignored_witness:
  "cfg_logAs (makeRequestConfig\<lparr>cfg_logAs := Some []\<rparr>) = Some []
   \<and> \<not> is_set (cfg_skipLog (makeRequestConfig\<lparr>cfg_logAs := Some []\<rparr>))
   \<and> cfg_logPath (fst (snd (request disk_platform ''logs'' defaultFilename ''macbook'' 1000 2000
                        (makeRequestConfig\<lparr>cfg_logAs := Some []\<rparr>) empty_disk)))
       = Some ''v1_player''
   \<and> cfg_logPath (fst (snd (request disk_platform ''logs'' defaultFilename ''macbook'' 1000 2000
                        (makeRequestConfig\<lparr>cfg_logAs := Some [], cfg_logPath := Some ''prior''\<rparr>)
                        empty_disk)))
       = Some ''prior''"
proof -
  have 1: "cfg_logPath (fst (snd (request disk_platform ''logs'' defaultFilename ''macbook'' 1000 2000
                        (makeRequestConfig\<lparr>cfg_logAs := Some []\<rparr>) empty_disk)))
       = Some ''v1_player''"
    using empty_alias_ignored
            [of "makeRequestConfig\<lparr>cfg_logAs := Some []\<rparr>" disk_platform "''logs''"
                defaultFilename "''macbook''" 1000 2000 empty_disk]
          getPathFromUrl_fixture
    by (simp add: makeRequestConfig_def is_set_def truthy_str_def or_str_def disk_platform_def)
  have 2: "cfg_logPath (fst (snd (request disk_platform ''logs'' defaultFilename ''macbook'' 1000 2000
                        (makeRequestConfig\<lparr>cfg_logAs := Some [], cfg_logPath := Some ''prior''\<rparr>)
                        empty_disk)))
       = Some ''prior''"
    using empty_alias_ignored
            [of "makeRequestConfig\<lparr>cfg_logAs := Some [], cfg_logPath := Some ''prior''\<rparr>"
                disk_platform "''logs''" defaultFilename "''macbook''" 1000 2000 empty_disk]
    by (simp add: makeRequestConfig_def is_set_def truthy_str_def)
  from 1 2 show ?thesis by (simp add: makeRequestConfig_def is_set_def)
qed

lemma circular_throws:
  "ser gap ind circular_body = Inl (TypeError ''Converting circular structure to JSON'')"
  by (simp add: circular_body_def)

lemma ser_headers_obj: "\<exists>parts. ser_props gap ind (map (\<lambda>kv. (fst kv, JStr (snd kv))) hs) = Inr parts"
  by (induction hs) auto

lemma headers_obj_serializes: "\<exists>s. ser gap ind (headers_obj hs) = Inr (Some s)"
  using ser_headers_obj [of gap "ind @ gap" hs] by (auto simp: headers_obj_def)

lemma opt_str_serializes: "\<exists>r. ser gap ind (opt_str a) = Inr r"
  by (cases a) (simp_all add: opt_str_def)

lemma opt_num_serializes: "\<exists>r. ser gap ind (opt_num a) = Inr r"
  by (cases a) (simp_all add: opt_num_def)

lemma ser_props_ok:
  "(\<And>kv. kv \<in> set ps \<Longrightarrow> \<exists>r. ser gap ind (snd kv) = Inr r) \<Longrightarrow>
   \<exists>parts. ser_props gap ind ps = Inr parts"
proof (induction ps)
  case Nil
  then show ?case by simp
next
  case (Cons kv ps)
  obtain r where r: "ser gap ind (snd kv) = Inr r" using Cons.prems [of kv] by auto
  obtain parts where parts: "ser_props gap ind ps = Inr parts"
    using Cons.IH Cons.prems by auto
  show ?case by (simp add: r parts)
qed

lemma ser_props_fail:
  "ser_props gap ind xs = Inr parts \<Longrightarrow> ser gap ind v = Inl e \<Longrightarrow>
   ser_props gap ind (xs @ (k, v) # ys) = Inl e"
  by (induction xs arbitrary: parts) (auto split: sum.splits)

lemma ser_obj_ok:
  "ser_props gap (ind @ gap) ps = Inr parts \<Longrightarrow>
   ser gap ind (JObj ps) = Inr (Some (wrap ''{'' ''}'' gap ind parts))"
  by simp

lemma ser_obj_fail: "ser_props gap (ind @ gap) ps = Inl e \<Longrightarrow> ser gap ind (JObj ps) = Inl e"
  by simp

lemma resMeta_serializes: "\<exists>meta. JSON_stringify (resMeta r duration) n = Inr (Some meta)"
proof -
  let ?gap = "replicate (min n 10) CHR '' ''"
  have "\<exists>parts. ser_props ?gap ([] @ ?gap)
          [(''status'', JNum (res_status r)), (''statusText'', JStr (res_statusText r)),
           (''headers'', headers_obj (res_headers r)), (''duration'', opt_num duration)]
        = Inr parts"
    using headers_obj_serializes [of ?gap "[] @ ?gap" "res_headers r"]
          opt_num_serializes [of ?gap "[] @ ?gap" duration]
    by (intro ser_props_ok) auto
  then obtain parts where "ser_props ?gap ([] @ ?gap)
          [(''status'', JNum (res_status r)), (''statusText'', JStr (res_statusText r)),
           (''headers'', headers_obj (res_headers r)), (''duration'', opt_num duration)]
        = Inr parts" ..
  from ser_obj_ok [OF this] show ?thesis unfolding JSON_stringify_def resMeta_def by blast
qed

lemma reqData_circular:
  "JSON_stringify (reqData (config\<lparr>cfg_data := circular_body\<rparr>)) n
     = Inl (TypeError ''Converting circular structure to JSON'')"
proof -
  let ?gap = "replicate (min n 10) CHR '' ''"
  let ?xs = "[(''url'', opt_str (cfg_url config)),
              (''method'', opt_str (map_option toUpperCase (cfg_method config))),
              (''headers'', headers_obj (cfg_headers config))]"
  obtain parts where "ser_props ?gap ([] @ ?gap) ?xs = Inr parts"
    using headers_obj_serializes [of ?gap "[] @ ?gap" "cfg_headers config"]
          opt_str_serializes [of ?gap "[] @ ?gap" "cfg_url config"]
          opt_str_serializes [of ?gap "[] @ ?gap" "map_option toUpperCase (cfg_method config)"]
          ser_props_ok [of ?xs ?gap "[] @ ?gap"]
    by auto
  then have "ser_props ?gap ([] @ ?gap) (?xs @ (''data'', circular_body) # [])
               = Inl (TypeError ''Converting circular structure to JSON'')"
    using circular_throws by (rule ser_props_fail)
  then have "ser_props ?gap ([] @ ?gap)
               [(''url'', opt_str (cfg_url config)),
                (''method'', opt_str (map_option toUpperCase (cfg_method config))),
                (''headers'', headers_obj (cfg_headers config)),
                (''data'', circular_body)]
             = Inl (TypeError ''Converting circular structure to JSON'')"
    by (simp only: append.simps)
  from ser_obj_fail [OF this] show ?thesis
    unfolding JSON_stringify_def reqData_def by (simp del: ser.simps)
qed

text \<open>
  Claim C4, at an input where the code departs from it. The claim: for every request
  configuration without \<open>skipLog\<close> the pre-request hook writes exactly one request
  file and returns the configuration. For a request whose body refers to itself
  \<open>JSON.stringify(reqData, null, 2)\<close> throws, outside any \<open>try\<close>: on every platform the
  hook's promise is rejected with that \<open>TypeError\<close> and the world is left as it was, so no
  file is written. (\<open>request_logged\<close> above is the claim for the configurations whose
  document serializes.)
\<close>

theorem request_rejects_circular_data:
  "fst (request pf dir filenameFn host now1 now2
          (makeRequestConfig\<lparr>cfg_method := Some ''post'', cfg_data := circular_body\<rparr>) w)
     = Inl (TypeError ''Converting circular structure to JSON'')
   \<and> snd (snd (request pf dir filenameFn host now1 now2
                 (makeRequestConfig\<lparr>cfg_method := Some ''post'', cfg_data := circular_body\<rparr>) w)) = w"
proof -
  let ?c = "makeRequestConfig\<lparr>cfg_method := Some ''post'', cfg_data := circular_body\<rparr>"
  obtain path where p: "request_path (new_URL pf) ?c = Inr path"
    using request_path_returns by blast
  have ns: "\<not> is_set (cfg_skipLog ?c)" by (simp add: makeRequestConfig_def is_set_def)
  show ?thesis
    using request_rejected
            [OF ns p reqData_circular [of "makeRequestConfig\<lparr>cfg_method := Some ''post''\<rparr>" 2]]
    by simp
qed

lemma errData_circular:
  assumes r: "err_response err = Some r" and c: "res_data r = circular_body"
  shows "JSON_stringify (errData err duration) n
     = Inl (TypeError ''Converting circular structure to JSON'')"
proof -
  let ?gap = "replicate (min n 10) CHR '' ''"
  let ?xs = "[(''message'', JStr (err_message err)),
              (''code'', opt_str (err_code err)),
              (''status'', opt_num (Some (res_status r))),
              (''statusText'', opt_str (Some (res_statusText r))),
              (''headers'', headers_obj (res_headers r)),
              (''duration'', opt_num duration)]"
  obtain parts where "ser_props ?gap ([] @ ?gap) ?xs = Inr parts"
    using headers_obj_serializes [of ?gap "[] @ ?gap" "res_headers r"]
          opt_str_serializes [of ?gap "[] @ ?gap" "err_code err"]
          opt_str_serializes [of ?gap "[] @ ?gap" "Some (res_statusText r)"]
          opt_num_serializes [of ?gap "[] @ ?gap" "Some (res_status r)"]
          opt_num_serializes [of ?gap "[] @ ?gap" duration]
          ser_props_ok [of ?xs ?gap "[] @ ?gap"]
    by auto
  then have "ser_props ?gap ([] @ ?gap) (?xs @ (''data'', circular_body) # [])
               = Inl (TypeError ''Converting circular structure to JSON'')"
    using circular_throws by (rule ser_props_fail)
  then have "ser_props ?gap ([] @ ?gap)
               [(''message'', JStr (err_message err)),
                (''code'', opt_str (err_code err)),
                (''status'', opt_num (Some (res_status r))),
                (''statusText'', opt_str (Some (res_statusText r))),
                (''headers'', headers_obj (res_headers r)),
                (''duration'', opt_num duration),
                (''data'', circular_body)]
             = Inl (TypeError ''Converting circular structure to JSON'')"
    by (simp only: append.simps)
  from ser_obj_fail [OF this] show ?thesis
    unfolding JSON_stringify_def errData_def by (simp add: r c del: ser.simps)
qed

lemma error_logged:
  assumes "\<not> is_set (Option.bind (err_config err) cfg_skipLog)"
    and "JSON_stringify
           (errData err (elapsed (Option.bind (err_config err) cfg_logStartTime) now1)) 2
         = Inr content"
  shows "error pf dir filenameFn host now1 now2 err w =
           (Inl (Failure err),
            snd (saveLog pf (buildFilepath dir filenameFn (err_params host now2 err) Json)
                   content w))"
  using assms
  by (simp add: error_def Let_def call_then_def await_then_def reject_def saveLog_effect)

lemma error_rejected:
  assumes "\<not> is_set (Option.bind (err_config err) cfg_skipLog)"
    and "JSON_stringify
           (errData err (elapsed (Option.bind (err_config err) cfg_logStartTime) now1)) 2
         = Inl e"
  shows "error pf dir filenameFn host now1 now2 err w = (Inl e, w)"
  using assms
  by (simp add: error_def Let_def call_then_def reject_def)

text \<open>
  Claim C1, at an input where the code departs from it. The claim: for every error the
  on-error hook writes exactly one error file and rejects with the original error. For
  an error whose response body refers to itself \<open>JSON.stringify(errData, null, 2)\<close>
  throws, outside any \<open>try\<close>: on every platform the hook's promise is rejected with that
  \<open>TypeError\<close> and not with the original error, and the world is left as it was, so no
  file is written. (\<open>error_logged\<close> above is the claim for the errors whose document
  serializes.)
\<close>

theorem error_rejects_circular_body:
  "error pf dir filenameFn host now1 now2
     ((makeAxiosError makeRequestConfig)
        \<lparr>err_response :=
           Some ((makeResponse makeRequestConfig)
                   \<lparr>res_status := 500, res_statusText := ''Internal Server Error'',
                    res_data := circular_body\<rparr>)\<rparr>) w
   = (Inl (TypeError ''Converting circular structure to JSON''), w)"
proof -
  let ?r = "(makeResponse makeRequestConfig)
              \<lparr>res_status := 500, res_statusText := ''Internal Server Error'',
               res_data := circular_body\<rparr>"
  let ?e = "(makeAxiosError makeRequestConfig)\<lparr>err_response := Some ?r\<rparr>"
  have ns: "\<not> is_set (Option.bind (err_config ?e) cfg_skipLog)"
    by (simp add: makeAxiosError_def makeRequestConfig_def is_set_def)
  have "JSON_stringify
           (errData ?e (elapsed (Option.bind (err_config ?e) cfg_logStartTime) now1)) 2
         = Inl (TypeError ''Converting circular structure to JSON'')"
    by (rule errData_circular [of ?e ?r]) simp_all
  with ns show ?thesis by (rule error_rejected)
qed

section \<open>Properties of the response interceptor\<close>

lemma response_logged_body:
  assumes "\<not> is_set (cfg_skipLog (res_config r))"
    and "detectExt (res_data r) (Some (res_headers r)) \<noteq> Json"
    and "JSON_stringify (resMeta r (elapsed (cfg_logStartTime (res_config r)) now1)) 2 = Inr meta"
    and "bodyContent (res_data r) = Inr body"
  shows "response pf dir filenameFn host now1 now2 r w =
           (Inr r,
            snd (saveLog pf
                   (buildFilepath dir filenameFn (res_params host now2 r)
                      (detectExt (res_data r) (Some (res_headers r))))
                   body
                   (snd (saveLog pf (buildFilepath dir filenameFn (res_params host now2 r) Json)
                           meta w))))"
  using assms
  by (simp add: response_def Let_def call_then_def await_then_def resolve_def saveLog_effect
                res_params_def)

lemma response_logged_json:
  assumes "\<not> is_set (cfg_skipLog (res_config r))"
    and "detectExt (res_data r) (Some (res_headers r)) = Json"
    and "truthy (res_data r)"
    and "JSON_stringify (resMeta r (elapsed (cfg_logStartTime (res_config r)) now1)) 2 = Inr meta"
    and "JSON_stringify (res_data r) 2 = Inr body"
  shows "response pf dir filenameFn host now1 now2 r w =
           (Inr r,
            snd (saveLog pf
                   (replace_first (buildFilepath dir filenameFn (res_params host now2 r) Json)
                      ''_res.json'' ''_res_data.json'')
                   body
                   (snd (saveLog pf (buildFilepath dir filenameFn (res_params host now2 r) Json)
                           meta w))))"
  using assms
  by (simp add: response_def Let_def call_then_def await_then_def resolve_def saveLog_effect)

lemma response_logged_meta_only:
  assumes "\<not> is_set (cfg_skipLog (res_config r))"
    and "detectExt (res_data r) (Some (res_headers r)) = Json"
    and "\<not> truthy (res_data r)"
    and "JSON_stringify (resMeta r (elapsed (cfg_logStartTime (res_config r)) now1)) 2 = Inr meta"
  shows "response pf dir filenameFn host now1 now2 r w =
           (Inr r,
            snd (saveLog pf (buildFilepath dir filenameFn (res_params host now2 r) Json)
                   meta w))"
  using assms
  by (simp add: response_def Let_def call_then_def await_then_def resolve_def saveLog_effect)

lemma replace_first_suffix:
  assumes "old \<noteq> []" and "\<And>i. i < length s \<Longrightarrow> \<not> startsWith (drop i (s @ old)) old"
  shows "replace_first (s @ old) old new = s @ new"
  using assms(2)
proof (induction s)
  case Nil
  obtain c cs where "old = c # cs" using assms(1) by (cases old) auto
  then show ?case by (simp add: startsWith_def)
next
  case (Cons a s)
  have 0: "\<not> startsWith ((a # s) @ old) old" using Cons.prems [of 0] by simp
  have "\<And>i. i < length s \<Longrightarrow> \<not> startsWith (drop i (s @ old)) old"
    using Cons.prems [of "Suc i" for i] by simp
  then have "replace_first (s @ old) old new = s @ new" by (rule Cons.IH)
  with 0 show ?case by simp
qed

lemma substitute_suffix_append: "substitute_suffix (s @ old) old new = s @ new"
  by (simp add: substitute_suffix_def endsWith_def)

text \<open>
  The post-response hook where both documents serialize, on every platform and for every
  response with \<open>skipLog\<close> unset. The metadata document always serializes and is written
  first. If the classified extension is not json, the body (as it is when it is a string,
  else its JSON serialization) is given to \<open>saveLog\<close> with the path built with the
  classified extension; if the extension is json and the body is truthy, its serialization
  is given to \<open>saveLog\<close> with the path that \<open>String.prototype.replace\<close> makes of the
  metadata path, which is the substitution of the suffix where \<open>_res.json\<close> occurs in
  that path only as its suffix; if the extension is json and the body is falsy nothing
  more is written. In each case the response is returned unchanged.
\<close>

lemma response_logged:
  "(\<not> is_set (cfg_skipLog (res_config r)) \<longrightarrow>
   (\<exists>meta.
      JSON_stringify (resMeta r (elapsed (cfg_logStartTime (res_config r)) now1)) 2
        = Inr (Some meta)
    \<and> (\<forall>body.
          detectExt (res_data r) (Some (res_headers r)) \<noteq> Json
          \<and> (case res_data r of JStr s \<Rightarrow> Inr (Some s) | d \<Rightarrow> JSON_stringify d 2) = Inr body
          \<longrightarrow>
          response pf dir filenameFn host now1 now2 r w =
            (Inr r,
             snd (saveLog pf
                    (buildFilepath dir filenameFn (res_params host now2 r)
                       (detectExt (res_data r) (Some (res_headers r))))
                    body
                    (snd (saveLog pf
                            (buildFilepath dir filenameFn (res_params host now2 r) Json)
                            (Some meta) w)))))
    \<and> (\<forall>body.
          detectExt (res_data r) (Some (res_headers r)) = Json \<and> truthy (res_data r)
          \<and> JSON_stringify (res_data r) 2 = Inr body
          \<longrightarrow>
          response pf dir filenameFn host now1 now2 r w =
            (Inr r,
             snd (saveLog pf
                    (replace_first (buildFilepath dir filenameFn (res_params host now2 r) Json)
                       ''_res.json'' ''_res_data.json'')
                    body
                    (snd (saveLog pf
                            (buildFilepath dir filenameFn (res_params host now2 r) Json)
                            (Some meta) w)))))
    \<and> (detectExt (res_data r) (Some (res_headers r)) = Json \<and> \<not> truthy (res_data r)
          \<longrightarrow>
          response pf dir filenameFn host now1 now2 r w =
            (Inr r,
             snd (saveLog pf (buildFilepath dir filenameFn (res_params host now2 r) Json)
                    (Some meta) w)))))
   \<and> (\<forall>s. (\<forall>i < length s. \<not> startsWith (drop i (s @ ''_res.json'')) ''_res.json'') \<longrightarrow>
          replace_first (s @ ''_res.json'') ''_res.json'' ''_res_data.json''
            = s @ ''_res_data.json'')"
proof (intro conjI impI)
  assume ns: "\<not> is_set (cfg_skipLog (res_config r))"
  obtain meta where
    m: "JSON_stringify (resMeta r (elapsed (cfg_logStartTime (res_config r)) now1)) 2
          = Inr (Some meta)"
    using resMeta_serializes by blast
  have bc: "\<And>d. (case d of JStr s \<Rightarrow> Inr (Some s) | d \<Rightarrow> JSON_stringify d 2) = bodyContent d"
    by (simp add: bodyContent_def split: jsval.split)
  show "\<exists>meta.
      JSON_stringify (resMeta r (elapsed (cfg_logStartTime (res_config r)) now1)) 2
        = Inr (Some meta)
    \<and> (\<forall>body.
          detectExt (res_data r) (Some (res_headers r)) \<noteq> Json
          \<and> (case res_data r of JStr s \<Rightarrow> Inr (Some s) | d \<Rightarrow> JSON_stringify d 2) = Inr body
          \<longrightarrow>
          response pf dir filenameFn host now1 now2 r w =
            (Inr r,
             snd (saveLog pf
                    (buildFilepath dir filenameFn (res_params host now2 r)
                       (detectExt (res_data r) (Some (res_headers r))))
                    body
                    (snd (saveLog pf
                            (buildFilepath dir filenameFn (res_params host now2 r) Json)
                            (Some meta) w)))))
    \<and> (\<forall>body.
          detectExt (res_data r) (Some (res_headers r)) = Json \<and> truthy (res_data r)
          \<and> JSON_stringify (res_data r) 2 = Inr body
          \<longrightarrow>
          response pf dir filenameFn host now1 now2 r w =
            (Inr r,
             snd (saveLog pf
                    (replace_first (buildFilepath dir filenameFn (res_params host now2 r) Json)
                       ''_res.json'' ''_res_data.json'')
                    body
                    (snd (saveLog pf
                            (buildFilepath dir filenameFn (res_params host now2 r) Json)
                            (Some meta) w)))))
    \<and> (detectExt (res_data r) (Some (res_headers r)) = Json \<and> \<not> truthy (res_data r)
          \<longrightarrow>
          response pf dir filenameFn host now1 now2 r w =
            (Inr r,
             snd (saveLog pf (buildFilepath dir filenameFn (res_params host now2 r) Json)
                    (Some meta) w)))"
    using response_logged_body [OF ns _ m, of _ pf dir filenameFn host now2 w]
          response_logged_json [OF ns _ _ m, of _ pf dir filenameFn host now2 w]
          response_logged_meta_only [OF ns _ _ m, of pf dir filenameFn host now2 w]
          m
    unfolding bc by blast
next
  show "\<forall>s. (\<forall>i < length s. \<not> startsWith (drop i (s @ ''_res.json'')) ''_res.json'') \<longrightarrow>
          replace_first (s @ ''_res.json'') ''_res.json'' ''_res_data.json''
            = s @ ''_res_data.json''"
    using replace_first_suffix [of "''_res.json''" _ "''_res_data.json''"] by simp
qed

lemmas path_eval = buildFilepath_def defaultFilename_def res_params_def or_str_def truthy_str_def
  number_string_def decimal_eval

lemmas fixture_defs = makeRequestConfig_def makeResponse_def makeAxiosError_def

lemma fixture_body_serializes:
  "\<exists>b. JSON_stringify (JObj [(''result'', JStr ''ok'')]) 2 = Inr (Some b)"
  by (simp add: JSON_stringify_def)

lemma saveLog_disk_twice:
  assumes "\<not> read_only k"
  shows "map fst (files (snd (saveLog disk_platform p2 (Some c2)
                         (snd (saveLog disk_platform p1 (Some c1) k)))))
         = p2 # filter (\<lambda>p. p \<noteq> p2) (p1 # filter (\<lambda>p. p \<noteq> p1) (map fst (files k)))"
  using assms by (simp add: saveLog_disk_ok filter_map comp_def)

text \<open>
  An exchange path that contains \<open>_res.json\<close>: for the path \<open>a_res.json\<close> the metadata
  file is \<open>logs/2_macbook_a_res.json_res.json\<close>. Substituting its suffix gives
  \<open>logs/2_macbook_a_res.json_res_data.json\<close>; \<open>String.prototype.replace\<close> rewrites the
  first occurrence, and the hook writes the body to
  \<open>logs/2_macbook_a_res_data.json_res.json\<close>, a name that ends in \<open>_res.json\<close> and not
  in \<open>_res_data.json\<close>.
\<close>

lemma response_body_path_first_occurrence:
  "detectExt (res_data (makeResponse (makeRequestConfig\<lparr>cfg_logPath := Some ''a_res.json''\<rparr>)))
     (Some (res_headers (makeResponse (makeRequestConfig\<lparr>cfg_logPath := Some ''a_res.json''\<rparr>))))
     = Json
   \<and> truthy (res_data (makeResponse (makeRequestConfig\<lparr>cfg_logPath := Some ''a_res.json''\<rparr>)))
   \<and> buildFilepath ''logs'' defaultFilename
         (res_params ''macbook'' 2000
            (makeResponse (makeRequestConfig\<lparr>cfg_logPath := Some ''a_res.json''\<rparr>))) Json
       = ''logs/2_macbook_a_res.json_res.json''
   \<and> substitute_suffix ''logs/2_macbook_a_res.json_res.json'' ''_res.json'' ''_res_data.json''
       = ''logs/2_macbook_a_res.json_res_data.json''
   \<and> map fst (files (snd (response disk_platform ''logs'' defaultFilename ''macbook'' 1000 2000
                           (makeResponse (makeRequestConfig\<lparr>cfg_logPath := Some ''a_res.json''\<rparr>))
                           empty_disk)))
       = [''logs/2_macbook_a_res_data.json_res.json'', ''logs/2_macbook_a_res.json_res.json'']"
proof -
  let ?r = "makeResponse (makeRequestConfig\<lparr>cfg_logPath := Some ''a_res.json''\<rparr>)"
  have ns: "\<not> is_set (cfg_skipLog (res_config ?r))" by (simp add: fixture_defs is_set_def)
  have ext: "detectExt (res_data ?r) (Some (res_headers ?r)) = Json"
    by (simp add: fixture_defs detectExt_def detectExt_eval)
  have tr: "truthy (res_data ?r)" by (simp add: fixture_defs)
  obtain meta where
    m: "JSON_stringify (resMeta ?r (elapsed (cfg_logStartTime (res_config ?r)) 1000)) 2
          = Inr (Some meta)"
    using resMeta_serializes by blast
  obtain b where b: "JSON_stringify (res_data ?r) 2 = Inr (Some b)"
    using fixture_body_serializes by (auto simp: fixture_defs)
  have mp: "buildFilepath ''logs'' defaultFilename (res_params ''macbook'' 2000 ?r) Json
       = ''logs/2_macbook_a_res.json_res.json''"
    by (simp add: path_eval fixture_defs)
  have dp: "replace_first ''logs/2_macbook_a_res.json_res.json'' ''_res.json'' ''_res_data.json''
       = ''logs/2_macbook_a_res_data.json_res.json''"
    by (simp add: startsWith_def)
  have sp: "substitute_suffix ''logs/2_macbook_a_res.json_res.json'' ''_res.json'' ''_res_data.json''
       = ''logs/2_macbook_a_res.json_res_data.json''"
    by (simp add: substitute_suffix_def endsWith_def)
  have "map fst (files (snd (response disk_platform ''logs'' defaultFilename ''macbook'' 1000 2000
                           ?r empty_disk)))
       = [''logs/2_macbook_a_res_data.json_res.json'', ''logs/2_macbook_a_res.json_res.json'']"
    unfolding response_logged_json [OF ns ext tr m b] mp dp
    by (simp add: saveLog_disk_twice empty_disk_def)
  with ext tr mp sp show ?thesis by blast
qed

text \<open>
  The hook on the reference disk: an HTML page (two files, the page as it is), the JSON
  fixture of the tests (the metadata file and its \<open>_res_data.json\<close> sibling), and a
  \<open>null\<close> body (the metadata file alone).
\<close>

lemma response_fixtures:
  "fst (response disk_platform ''logs'' defaultFilename ''macbook'' 1000 2000
          ((makeResponse (makeRequestConfig\<lparr>cfg_logPath := Some ''page''\<rparr>))
             \<lparr>res_headers := [(''content-type'', ''text/html'')],
              res_data := JStr ''<!DOCTYPE html><html><body>Hello</body></html>''\<rparr>)
          empty_disk)
     = Inr ((makeResponse (makeRequestConfig\<lparr>cfg_logPath := Some ''page''\<rparr>))
             \<lparr>res_headers := [(''content-type'', ''text/html'')],
              res_data := JStr ''<!DOCTYPE html><html><body>Hello</body></html>''\<rparr>)
   \<and> map fst (files (snd (response disk_platform ''logs'' defaultFilename ''macbook'' 1000 2000
          ((makeResponse (makeRequestConfig\<lparr>cfg_logPath := Some ''page''\<rparr>))
             \<lparr>res_headers := [(''content-type'', ''text/html'')],
              res_data := JStr ''<!DOCTYPE html><html><body>Hello</body></html>''\<rparr>)
          empty_disk)))
     = [''logs/2_macbook_page_res.html'', ''logs/2_macbook_page_res.json'']
   \<and> map_of (files (snd (response disk_platform ''logs'' defaultFilename ''macbook'' 1000 2000
          ((makeResponse (makeRequestConfig\<lparr>cfg_logPath := Some ''page''\<rparr>))
             \<lparr>res_headers := [(''content-type'', ''text/html'')],
              res_data := JStr ''<!DOCTYPE html><html><body>Hello</body></html>''\<rparr>)
          empty_disk))) ''logs/2_macbook_page_res.html''
     = Some ''<!DOCTYPE html><html><body>Hello</body></html>''
   \<and> map fst (files (snd (response disk_platform ''logs'' defaultFilename ''macbook'' 1000 2000
          (makeResponse (makeRequestConfig\<lparr>cfg_logPath := Some ''v1_player''\<rparr>)) empty_disk)))
     = [''logs/2_macbook_v1_player_res_data.json'', ''logs/2_macbook_v1_player_res.json'']
   \<and> map fst (files (snd (response disk_platform ''logs'' defaultFilename ''macbook'' 1000 2000
          ((makeResponse (makeRequestConfig\<lparr>cfg_logPath := Some ''v1_player''\<rparr>))
             \<lparr>res_data := JNull\<rparr>) empty_disk)))
     = [''logs/2_macbook_v1_player_res.json'']"
proof -
  let ?h = "(makeResponse (makeRequestConfig\<lparr>cfg_logPath := Some ''page''\<rparr>))
             \<lparr>res_headers := [(''content-type'', ''text/html'')],
              res_data := JStr ''<!DOCTYPE html><html><body>Hello</body></html>''\<rparr>"
  let ?j = "makeResponse (makeRequestConfig\<lparr>cfg_logPath := Some ''v1_player''\<rparr>)"
  let ?n = "(makeResponse (makeRequestConfig\<lparr>cfg_logPath := Some ''v1_player''\<rparr>))
             \<lparr>res_data := JNull\<rparr>"
  have ns: "\<not> is_set (cfg_skipLog (res_config ?h))" "\<not> is_set (cfg_skipLog (res_config ?j))"
    "\<not> is_set (cfg_skipLog (res_config ?n))"
    by (simp_all add: fixture_defs is_set_def)
  have ext_h: "detectExt (res_data ?h) (Some (res_headers ?h)) = Html"
    by (simp add: fixture_defs detectExt_def detectExt_eval)
  have ext_j: "detectExt (res_data ?j) (Some (res_headers ?j)) = Json"
    by (simp add: fixture_defs detectExt_def detectExt_eval)
  have ext_n: "detectExt (res_data ?n) (Some (res_headers ?n)) = Json"
    by (simp add: fixture_defs detectExt_def detectExt_eval)
  have body_h: "(case res_data ?h of JStr s \<Rightarrow> Inr (Some s) | d \<Rightarrow> JSON_stringify d 2)
                  = Inr (Some ''<!DOCTYPE html><html><body>Hello</body></html>'')"
    by (simp add: fixture_defs)
  obtain b where body_j: "JSON_stringify (res_data ?j) 2 = Inr (Some b)"
    using fixture_body_serializes by (auto simp: fixture_defs)
  have tr_j: "truthy (res_data ?j)" and tr_n: "\<not> truthy (res_data ?n)"
    by (simp_all add: fixture_defs)
  have mp_h: "buildFilepath ''logs'' defaultFilename (res_params ''macbook'' 2000 ?h) Json
                = ''logs/2_macbook_page_res.json''"
    and bp_h: "buildFilepath ''logs'' defaultFilename (res_params ''macbook'' 2000 ?h) Html
                = ''logs/2_macbook_page_res.html''"
    and mp_j: "buildFilepath ''logs'' defaultFilename (res_params ''macbook'' 2000 ?j) Json
                = ''logs/2_macbook_v1_player_res.json''"
    and mp_n: "buildFilepath ''logs'' defaultFilename (res_params ''macbook'' 2000 ?n) Json
                = ''logs/2_macbook_v1_player_res.json''"
    by (simp_all add: path_eval fixture_defs)
  have dp_j: "replace_first ''logs/2_macbook_v1_player_res.json'' ''_res.json'' ''_res_data.json''
                = ''logs/2_macbook_v1_player_res_data.json''"
    by (simp add: startsWith_def)
  have h: "\<exists>meta. response disk_platform ''logs'' defaultFilename ''macbook'' 1000 2000 ?h empty_disk
             = (Inr ?h,
                snd (saveLog disk_platform ''logs/2_macbook_page_res.html''
                       (Some ''<!DOCTYPE html><html><body>Hello</body></html>'')
                       (snd (saveLog disk_platform ''logs/2_macbook_page_res.json'' (Some meta)
                               empty_disk))))"
    using response_logged
            [of ?h 1000 disk_platform "''logs''" defaultFilename "''macbook''" 2000 empty_disk]
          ns(1) ext_h body_h
    unfolding mp_h bp_h ext_h by auto
  have j: "\<exists>meta. response disk_platform ''logs'' defaultFilename ''macbook'' 1000 2000 ?j empty_disk
             = (Inr ?j,
                snd (saveLog disk_platform ''logs/2_macbook_v1_player_res_data.json'' (Some b)
                       (snd (saveLog disk_platform ''logs/2_macbook_v1_player_res.json'' (Some meta)
                               empty_disk))))"
    using response_logged
            [of ?j 1000 disk_platform "''logs''" defaultFilename "''macbook''" 2000 empty_disk]
          ns(2) ext_j tr_j body_j
    unfolding mp_j dp_j by auto
  have n: "\<exists>meta. response disk_platform ''logs'' defaultFilename ''macbook'' 1000 2000 ?n empty_disk
             = (Inr ?n,
                snd (saveLog disk_platform ''logs/2_macbook_v1_player_res.json'' (Some meta)
                       empty_disk))"
    using response_logged
            [of ?n 1000 disk_platform "''logs''" defaultFilename "''macbook''" 2000 empty_disk]
          ns(3) ext_n tr_n
    unfolding mp_n by auto
  have ro: "\<not> read_only empty_disk" by (simp add: empty_disk_def)
  from h j n show ?thesis
    by (auto simp: saveLog_disk_ok [OF ro] saveLog_disk_ok empty_disk_def)
qed

section \<open>The interceptors on the fixtures of the tests\<close>

text \<open>
  The test "request interceptor saves request log file": one file whose name ends in
  \<open>_req.json\<close> and whose \<open>method\<close> is \<open>GET\<close>; the stamped configuration is returned.
\<close>

lemma reqData_fixture:
  "JSON_stringify (reqData makeRequestConfig) 2 =
     Inr (Some ''{\<newline>  \"url\": \"https://api.example.com/v1/player\",\<newline>  \"method\": \"GET\",\<newline>  \"headers\": {\<newline>    \"Content-Type\": \"application/json\"\<newline>  }\<newline>}'')"
  by (simp add: reqData_def fixture_defs json_eval opt_str_def headers_obj_def toUpperCase_def
                upper_char_def lowers_def uppers_def numeral_2_eq_2)

lemma request_fixture:
  "request disk_platform ''logs'' defaultFilename ''macbook'' 1000 2000 makeRequestConfig empty_disk
   = (Inr (makeRequestConfig\<lparr>cfg_logPath := Some ''v1_player'', cfg_logStartTime := Some 1000\<rparr>),
      makeRequestConfig\<lparr>cfg_logPath := Some ''v1_player'', cfg_logStartTime := Some 1000\<rparr>,
      \<lparr>files = [(''logs/2_macbook_v1_player_req.json'',
                  ''{\<newline>  \"url\": \"https://api.example.com/v1/player\",\<newline>  \"method\": \"GET\",\<newline>  \"headers\": {\<newline>    \"Content-Type\": \"application/json\"\<newline>  }\<newline>}'')],
       dirs = [''logs''], read_only = False\<rparr>)"
proof -
  have ns: "\<not> is_set (cfg_skipLog makeRequestConfig)" by (simp add: fixture_defs is_set_def)
  have p: "request_path (new_URL disk_platform) makeRequestConfig = Inr ''v1_player''"
    using getPathFromUrl_fixture
    by (simp add: request_path_def fixture_defs truthy_str_def or_str_def disk_platform_def)
  have fp: "buildFilepath ''logs'' defaultFilename
              \<lparr>p_ts = 2000 div 1000, p_hostname = ''macbook'',
               p_url = or_str (cfg_url makeRequestConfig) [], p_path = ''v1_player'',
               p_kind = Req\<rparr> Json = ''logs/2_macbook_v1_player_req.json''"
    by (simp add: path_eval)
  show ?thesis
    unfolding request_logged [OF ns p reqData_fixture] fp
    by (simp add: saveLog_disk_ok empty_disk_def posix_dirname_def ancestors_def upt_rec)
qed

text \<open>
  The test "error interceptor saves error log and rejects": one file whose name ends in
  \<open>_err.json\<close> with the message, the code, the status and the duration; the promise is
  rejected with the original error.
\<close>

lemma errData_fixture:
  "JSON_stringify
     (errData (makeAxiosError (makeRequestConfig\<lparr>cfg_logPath := Some ''submit'',
                                                  cfg_logStartTime := Some 950\<rparr>))
        (Some 50)) 2 =
     Inr (Some ''{\<newline>  \"message\": \"Request failed\",\<newline>  \"code\": \"ERR_BAD_RESPONSE\",\<newline>  \"status\": 500,\<newline>  \"statusText\": \"Internal Server Error\",\<newline>  \"headers\": {\<newline>    \"content-type\": \"application/json\"\<newline>  },\<newline>  \"duration\": 50,\<newline>  \"data\": {\<newline>    \"error\": \"Something went wrong\"\<newline>  }\<newline>}'')"
  by (simp add: errData_def fixture_defs json_eval opt_str_def opt_num_def headers_obj_def
                numeral_2_eq_2)

lemma error_fixture:
  "error disk_platform ''logs'' defaultFilename ''macbook'' 1000 2000
     (makeAxiosError (makeRequestConfig\<lparr>cfg_logPath := Some ''submit'',
                                          cfg_logStartTime := Some 950\<rparr>)) empty_disk
   = (Inl (Failure (makeAxiosError (makeRequestConfig\<lparr>cfg_logPath := Some ''submit'',
                                                        cfg_logStartTime := Some 950\<rparr>))),
      \<lparr>files = [(''logs/2_macbook_submit_err.json'',
                  ''{\<newline>  \"message\": \"Request failed\",\<newline>  \"code\": \"ERR_BAD_RESPONSE\",\<newline>  \"status\": 500,\<newline>  \"statusText\": \"Internal Server Error\",\<newline>  \"headers\": {\<newline>    \"content-type\": \"application/json\"\<newline>  },\<newline>  \"duration\": 50,\<newline>  \"data\": {\<newline>    \"error\": \"Something went wrong\"\<newline>  }\<newline>}'')],
       dirs = [''logs''], read_only = False\<rparr>)"
proof -
  let ?e = "makeAxiosError (makeRequestConfig\<lparr>cfg_logPath := Some ''submit'',
                                                cfg_logStartTime := Some 950\<rparr>)"
  have ns: "\<not> is_set (Option.bind (err_config ?e) cfg_skipLog)"
    by (simp add: fixture_defs is_set_def)
  have d: "elapsed (Option.bind (err_config ?e) cfg_logStartTime) 1000 = Some 50"
    by (simp add: fixture_defs elapsed_def)
  have fp: "buildFilepath ''logs'' defaultFilename (err_params ''macbook'' 2000 ?e) Json
              = ''logs/2_macbook_submit_err.json''"
    by (simp add: path_eval err_params_def fixture_defs)
  show ?thesis
    unfolding error_logged [OF ns errData_fixture [folded d]] fp
    by (simp add: saveLog_disk_ok empty_disk_def posix_dirname_def ancestors_def upt_rec)
qed

text \<open>
  Claim C5, at an input where the code departs from it. The claim: for every response
  with \<open>skipLog\<close> unset the hook writes the metadata file, writes the body where one is
  present, and returns the response unchanged. For a successful response whose body
  refers to itself the metadata file is written, then \<open>JSON.stringify(res.data, null, 2)\<close>
  throws, outside any \<open>try\<close>: on every platform the hook's promise is rejected with that
  \<open>TypeError\<close> and the response is not returned, and the world is the one after the
  metadata write alone, so no body file is written. (\<open>response_logged\<close> above is the
  hook for the responses whose body serializes.)
\<close>

theorem response_rejects_circular_body:
  "\<exists>meta.
     response pf dir filenameFn host now1 now2
       ((makeResponse makeRequestConfig)\<lparr>res_data := circular_body\<rparr>) w
     = (Inl (TypeError ''Converting circular structure to JSON''),
        snd (saveLog pf
               (buildFilepath dir filenameFn
                  (res_params host now2
                     ((makeResponse makeRequestConfig)\<lparr>res_data := circular_body\<rparr>)) Json)
               (Some meta) w))"
proof -
  let ?r = "(makeResponse makeRequestConfig)\<lparr>res_data := circular_body\<rparr>"
  obtain meta where
    m: "JSON_stringify (resMeta ?r (elapsed (cfg_logStartTime (res_config ?r)) now1)) 2
          = Inr (Some meta)"
    using resMeta_serializes by blast
  have ns: "\<not> is_set (cfg_skipLog (res_config ?r))" by (simp add: fixture_defs is_set_def)
  have ext: "detectExt (res_data ?r) (Some (res_headers ?r)) = Json"
    by (simp add: fixture_defs detectExt_def detectExt_eval)
  have tr: "truthy (res_data ?r)" by (simp add: circular_body_def)
  have c: "JSON_stringify (res_data ?r) 2 = Inl (TypeError ''Converting circular structure to JSON'')"
    by (simp add: JSON_stringify_def circular_throws)
  have "response pf dir filenameFn host now1 now2 ?r w
     = (Inl (TypeError ''Converting circular structure to JSON''),
        snd (saveLog pf (buildFilepath dir filenameFn (res_params host now2 ?r) Json)
               (Some meta) w))"
    using ns ext tr m c
    by (simp add: response_def Let_def call_then_def await_then_def reject_def saveLog_effect)
  then show ?thesis ..
qed

end
